theory Spec2Isabelle
  imports Main
begin

section \<open>Data model\<close>

text \<open>
  The commands of \<^verbatim>\<open>builder/unikraft/driver_kraft_import.go\<close> orchestrate calls into the
  KraftKit library. The library's types are not part of the repository; they are
  modelled by the observations the commands make of them.

  A Go \<^verbatim>\<open>error\<close> is represented by its message, a returned \<^verbatim>\<open>nil\<close> error by \<open>None\<close>
  (or by the \<open>Inr\<close> side of a sum when a value comes with it).
\<close>

type_synonym error = string

type_synonym PackageFormat = string

text \<open>Packages and package managers are opaque handles handed out by the library.\<close>

type_synonym Package = string

type_synonym PackageManager = string

datatype ComponentType =
    ComponentTypeUnknown
  | ComponentTypeCore
  | ComponentTypeArch
  | ComponentTypePlat
  | ComponentTypeLib
  | ComponentTypeApp

text \<open>
  A target as the commands read it: \<^verbatim>\<open>Name()\<close>, \<^verbatim>\<open>Architecture().Name()\<close>,
  \<^verbatim>\<open>Platform().Name()\<close>, \<^verbatim>\<open>Format()\<close>, \<^verbatim>\<open>KConfig()\<close>, \<^verbatim>\<open>Kernel()\<close>, \<^verbatim>\<open>KernelDbg()\<close>,
  \<^verbatim>\<open>Initrd()\<close> and \<^verbatim>\<open>Command()\<close>.
\<close>

record Target =
  tName :: string
  tArchitecture :: string
  tPlatform :: string
  tFormat :: PackageFormat
  tKConfig :: "(string \<times> string) list"
  tKernel :: string
  tKernelDbg :: string
  tInitrd :: string
  tCommand :: "string list"

section \<open>Target selection\<close>

text \<open>
  \<^verbatim>\<open>FilterTargets\<close> (lines 44-88). The five closures of \<^verbatim>\<open>conditions\<close>, in source order;
  the inner loop appends the target once for every condition that holds and has no
  \<^verbatim>\<open>break\<close>.
\<close>

type_synonym condition = "Target \<Rightarrow> string \<Rightarrow> string \<Rightarrow> string \<Rightarrow> bool"

definition conditions :: "condition list" where
  "conditions =
    [ (\<lambda>t arch plat targ. length targ = 0 \<and> length arch = 0 \<and> length plat = 0),
      (\<lambda>t arch plat targ. length targ > 0 \<and> tName t = targ),
      (\<lambda>t arch plat targ. length arch > 0 \<and> length plat = 0 \<and> tArchitecture t = arch),
      (\<lambda>t arch plat targ. length plat > 0 \<and> length arch = 0 \<and> tPlatform t = plat),
      (\<lambda>t arch plat targ. length plat > 0 \<and> length arch > 0
                           \<and> tArchitecture t = arch \<and> tPlatform t = plat) ]"

fun applyConditions ::
  "condition list \<Rightarrow> Target \<Rightarrow> string \<Rightarrow> string \<Rightarrow> string \<Rightarrow> Target list \<Rightarrow> Target list" where
  "applyConditions [] t arch plat targ selected = selected"
| "applyConditions (c # cs) t arch plat targ selected =
     (if \<not> c t arch plat targ then applyConditions cs t arch plat targ selected
      else applyConditions cs t arch plat targ (selected @ [t]))"

fun filterLoop ::
  "Target list \<Rightarrow> string \<Rightarrow> string \<Rightarrow> string \<Rightarrow> Target list \<Rightarrow> Target list" where
  "filterLoop [] arch plat targ selected = selected"
| "filterLoop (t # ts) arch plat targ selected =
     filterLoop ts arch plat targ (applyConditions conditions t arch plat targ selected)"

definition FilterTargets :: "Target list \<Rightarrow> string \<Rightarrow> string \<Rightarrow> string \<Rightarrow> Target list" where
  "FilterTargets targets arch plat targ = filterLoop targets arch plat targ []"

text \<open>The architecture/platform criteria (conditions three to five) taken together.\<close>

definition archPlatMatch :: "Target \<Rightarrow> string \<Rightarrow> string \<Rightarrow> bool" where
  "archPlatMatch t arch plat =
     ((arch \<noteq> [] \<and> plat = [] \<and> tArchitecture t = arch)
      \<or> (plat \<noteq> [] \<and> arch = [] \<and> tPlatform t = plat)
      \<or> (plat \<noteq> [] \<and> arch \<noteq> [] \<and> tArchitecture t = arch \<and> tPlatform t = plat))"

text \<open>The name criterion (condition two).\<close>

definition nameMatch :: "Target \<Rightarrow> string \<Rightarrow> bool" where
  "nameMatch t targ = (targ \<noteq> [] \<and> tName t = targ)"

text \<open>A target is selected when any of the five conditions holds.\<close>

definition selects :: "Target \<Rightarrow> string \<Rightarrow> string \<Rightarrow> string \<Rightarrow> bool" where
  "selects t arch plat targ =
     ((targ = [] \<and> arch = [] \<and> plat = []) \<or> nameMatch t targ \<or> archPlatMatch t arch plat)"

text \<open>Two sample targets used in the concrete evaluations below.\<close>

definition targetA :: Target where
  "targetA = \<lparr> tName = ''a'', tArchitecture = ''x86_64'', tPlatform = ''qemu'', tFormat = '''',
               tKConfig = [], tKernel = ''build/a_qemu-x86_64'', tKernelDbg = '''',
               tInitrd = '''', tCommand = [] \<rparr>"

definition targetB :: Target where
  "targetB = \<lparr> tName = ''b'', tArchitecture = ''arm64'', tPlatform = ''qemu'', tFormat = ''raw'',
               tKConfig = [], tKernel = ''build/b_qemu-arm64'', tKernelDbg = '''',
               tInitrd = '''', tCommand = [] \<rparr>"

section \<open>The library the commands call\<close>

record Component =
  cName :: string
  cType :: ComponentType
  cVersion :: string
  cSource :: string

text \<open>
  \<^verbatim>\<open>packmanager.CatalogQuery\<close>; a field the source leaves out of the literal has Go's zero
  value (the empty string, the \<^verbatim>\<open>nil\<close> slice).
\<close>

record CatalogQuery =
  qName :: string
  qTypes :: "ComponentType list"
  qVersion :: string
  qSource :: string
  qNoCache :: bool

text \<open>A loaded project: its working directory, \<^verbatim>\<open>Targets()\<close> and \<^verbatim>\<open>Template()\<close>.\<close>

record Project =
  pWorkdir :: string
  pTargets :: "Target list"
  pTemplate :: Component

datatype PullOption = WithPullWorkdir string | WithPullChecksum bool | WithPullCache bool

datatype ExecOption = WithStdin | WithStdout | WithStderr

datatype MakeOption =
    WithJobs int
  | WithMaxJobs bool
  | WithSilent bool
  | WithExecOptions "ExecOption list"

datatype BuildOption = WithBuildMakeOptions "MakeOption list" | WithBuildLogFile string

datatype PackOption =
    PackKConfig bool
  | PackOutput string
  | PackInitrd string
  | PackWithKernelVersion string

text \<open>
  What \<^verbatim>\<open>os.Stat\<close> tells the commands: the entry exists (and is a directory or not), the
  error satisfies \<^verbatim>\<open>os.IsNotExist\<close>, or it is some other error.
\<close>

datatype StatResult = StatOk bool | StatNotExist | StatFailed error

text \<open>
  Every call that leaves the command is recorded as an event, in program order. The
  list of events so far is the state the commands thread through.
\<close>

datatype event =
    EvGetwd
  | EvStat string
  | EvNewProject string "string list"
  | EvIsWorkdirInitialized string
  | EvComponents Project
  | EvCatalog PackageManager CatalogQuery
  | EvPull Package "PullOption list"
  | EvConfigure Project Target "MakeOption list"
  | EvPrepare Project Target "MakeOption list"
  | EvBuild Project Target "BuildOption list"
  | EvFrom PackageManager PackageFormat
  | EvNewTarget Target
  | EvPack PackageManager Target "PackOption list"
  | EvIsCompatible PackageManager string
  | EvPlaceComponent string ComponentType string
  | EvMergeTemplate Project Project
  | EvWarn "(string \<times> string) list" string
  | EvSet Project

text \<open>
  The library and the operating system are a parameter of the model: for every call, what
  it answers given the events so far and the arguments. Nothing is assumed about the
  answers, so a statement proved for every \<open>env\<close> holds whatever the file system, the
  catalogs and the build backend do.
\<close>

record env =
  os_Getwd :: "event list \<Rightarrow> error + string"
  os_Stat :: "event list \<Rightarrow> string \<Rightarrow> StatResult"
  app_NewProjectFromOptions :: "event list \<Rightarrow> string \<Rightarrow> string list \<Rightarrow> error + Project"
  app_IsWorkdirInitialized :: "event list \<Rightarrow> string \<Rightarrow> bool"
  project_Components :: "event list \<Rightarrow> Project \<Rightarrow> error + Component list"
  project_Configure :: "event list \<Rightarrow> Project \<Rightarrow> Target \<Rightarrow> MakeOption list \<Rightarrow> error option"
  project_Prepare :: "event list \<Rightarrow> Project \<Rightarrow> Target \<Rightarrow> MakeOption list \<Rightarrow> error option"
  project_Build :: "event list \<Rightarrow> Project \<Rightarrow> Target \<Rightarrow> BuildOption list \<Rightarrow> error option"
  project_MergeTemplate :: "event list \<Rightarrow> Project \<Rightarrow> Project \<Rightarrow> error + Project"
  project_Set :: "event list \<Rightarrow> Project \<Rightarrow> error option"
  packmanager_G :: PackageManager
  pm_Catalog :: "event list \<Rightarrow> PackageManager \<Rightarrow> CatalogQuery \<Rightarrow> error + Package list"
  pm_From :: "event list \<Rightarrow> PackageManager \<Rightarrow> PackageFormat \<Rightarrow> error + PackageManager"
  pm_IsCompatible :: "event list \<Rightarrow> PackageManager \<Rightarrow> string \<Rightarrow> error + PackageManager \<times> bool"
  pm_Pack :: "event list \<Rightarrow> PackageManager \<Rightarrow> Target \<Rightarrow> PackOption list \<Rightarrow> error + Package"
  pm_Format :: "PackageManager \<Rightarrow> PackageFormat"
  pack_Pull :: "event list \<Rightarrow> Package \<Rightarrow> PullOption list \<Rightarrow> error option"
  target_NewTargetFromOptions :: "event list \<Rightarrow> Target \<Rightarrow> error + Target"
  unikraft_PlaceComponent :: "event list \<Rightarrow> string \<Rightarrow> ComponentType \<Rightarrow> string \<Rightarrow> error + string"
  unikraft_TypeNameVersion :: "Component \<Rightarrow> string"
  unikraft_UK_FULLVERSION :: string
  query_String :: "CatalogQuery \<Rightarrow> string"

section \<open>The build command\<close>

record Build =
  bArchitecture :: string
  bDotConfig :: string
  bFast :: bool
  bJobs :: int
  bKernelDbg :: bool
  bNoCache :: bool
  bNoConfigure :: bool
  bNoFetch :: bool
  bNoPrepare :: bool
  bPlatform :: string
  bSaveBuildLog :: string
  bTarget :: string

text \<open>
  The working directory of \<^verbatim>\<open>BuildCmd\<close>, \<^verbatim>\<open>PkgCmd\<close> and \<^verbatim>\<open>ProperCleanCmd\<close>: the first
  argument, or \<^verbatim>\<open>os.Getwd()\<close> when there is none (lines 98-105, 273-280).
\<close>

fun argsWorkdir :: "env \<Rightarrow> string list \<Rightarrow> event list \<Rightarrow> (error + string) \<times> event list" where
  "argsWorkdir env [] h =
     (case os_Getwd env h of
        Inl err \<Rightarrow> (Inl err, h @ [EvGetwd])
      | Inr workdir \<Rightarrow> (Inr workdir, h @ [EvGetwd]))"
| "argsWorkdir env (a # rest) h = (Inr a, h)"

text \<open>
  \<^verbatim>\<open>BuildCmd\<close>, lines 94-147: the usage check, the working directory, loading the
  project, the initialisation check and the enumeration of the components. Lines
  123-139 compute \<^verbatim>\<open>nameWidth\<close>, a local that nothing reads afterwards; they are left out.
\<close>

definition buildLoad ::
  "env \<Rightarrow> Build \<Rightarrow> string list \<Rightarrow> event list
     \<Rightarrow> (error + string \<times> Project \<times> Component list) \<times> event list" where
  "buildLoad env opts args h =
     (if (length (bArchitecture opts) > 0 \<or> length (bPlatform opts) > 0)
         \<and> length (bTarget opts) > 0
      then (Inl ''the `--arch` and `--plat` options are not supported in addition to `--target`'', h)
      else
        case argsWorkdir env args h of
          (Inl err, h1) \<Rightarrow> (Inl err, h1)
        | (Inr workdir, h1) \<Rightarrow>
            (case app_NewProjectFromOptions env h1 workdir [] of
               Inl err \<Rightarrow> (Inl err, h1 @ [EvNewProject workdir []])
             | Inr project \<Rightarrow>
                 (let h2 = h1 @ [EvNewProject workdir []];
                      h3 = h2 @ [EvIsWorkdirInitialized workdir]
                  in if \<not> app_IsWorkdirInitialized env h2 workdir
                     then (Inl ''cannot build uninitialized project! start with: ukbuild init'', h3)
                     else
                       case project_Components env h3 project of
                         Inl err \<Rightarrow> (Inl err, h3 @ [EvComponents project])
                       | Inr components \<Rightarrow>
                           (Inr (workdir, project, components), h3 @ [EvComponents project]))))"

text \<open>\<^verbatim>\<open>BuildCmd\<close>, lines 148-175: one catalog query per component, exactly one result each.\<close>

fun resolveComponents ::
  "env \<Rightarrow> bool \<Rightarrow> Component list \<Rightarrow> Package list \<Rightarrow> event list
     \<Rightarrow> (error + Package list) \<times> event list" where
  "resolveComponents env noCache [] missingPacks h = (Inr missingPacks, h)"
| "resolveComponents env noCache (component # rest) missingPacks h =
     (let query = \<lparr> qName = cName component, qTypes = [cType component],
                    qVersion = cVersion component, qSource = cSource component,
                    qNoCache = noCache \<rparr>;
          h' = h @ [EvCatalog (packmanager_G env) query]
      in case pm_Catalog env h (packmanager_G env) query of
           Inl err \<Rightarrow> (Inl err, h')
         | Inr p \<Rightarrow>
             if length p = 0
             then (Inl (''could not find: '' @ unikraft_TypeNameVersion env component), h')
             else if length p > 1
             then (Inl (''too many options for '' @ unikraft_TypeNameVersion env component), h')
             else resolveComponents env noCache rest (missingPacks @ p) h')"

text \<open>
  \<^verbatim>\<open>BuildCmd\<close>, lines 177-187: every package of the list is pulled; the value \<^verbatim>\<open>p.Pull\<close>
  returns is not bound to anything.
\<close>

fun pullPacks :: "env \<Rightarrow> PullOption list \<Rightarrow> Package list \<Rightarrow> event list \<Rightarrow> event list" where
  "pullPacks env popts [] h = h"
| "pullPacks env popts (p # rest) h =
     (let _ = pack_Pull env h p popts
      in pullPacks env popts rest (h @ [EvPull p popts]))"

text \<open>
  \<^verbatim>\<open>BuildCmd\<close>, lines 208-249: configure, prepare and build each selected target; the
  values the three calls return are not bound to anything.
\<close>

fun buildTargets ::
  "env \<Rightarrow> Build \<Rightarrow> Project \<Rightarrow> MakeOption list \<Rightarrow> Target list \<Rightarrow> event list \<Rightarrow> event list" where
  "buildTargets env opts project mopts [] h = h"
| "buildTargets env opts project mopts (targ # rest) h =
     (let copts = [WithSilent True, WithExecOptions [WithStdin, WithStdout, WithStderr]];
          h1 = (if \<not> bNoConfigure opts
                then (let _ = project_Configure env h project targ copts
                      in h @ [EvConfigure project targ copts])
                else h);
          popts = mopts @ [WithExecOptions [WithStdout, WithStderr]];
          h2 = (if \<not> bNoPrepare opts
                then (let _ = project_Prepare env h1 project targ popts
                      in h1 @ [EvPrepare project targ popts])
                else h1);
          bopts = [WithBuildMakeOptions (mopts @ [WithExecOptions [WithStdout, WithStderr]]),
                   WithBuildLogFile (bSaveBuildLog opts)];
          h3 = (let _ = project_Build env h2 project targ bopts
                in h2 @ [EvBuild project targ bopts])
      in buildTargets env opts project mopts rest h3)"

text \<open>\<^verbatim>\<open>BuildCmd\<close>, lines 90-252. The result is the returned error and the events.\<close>

definition BuildCmd ::
  "env \<Rightarrow> Build \<Rightarrow> string list \<Rightarrow> event list \<Rightarrow> error option \<times> event list" where
  "BuildCmd env opts args h =
     (case buildLoad env opts args h of
        (Inl err, h1) \<Rightarrow> (Some err, h1)
      | (Inr (workdir, project, components), h1) \<Rightarrow>
          (case resolveComponents env (bNoCache opts) components [] h1 of
             (Inl err, h2) \<Rightarrow> (Some err, h2)
           | (Inr missingPacks, h2) \<Rightarrow>
               (let h3 = pullPacks env
                           [WithPullWorkdir workdir, WithPullCache (\<not> bNoCache opts)]
                           missingPacks h2;
                    selected = FilterTargets (pTargets project) (bArchitecture opts)
                                 (bPlatform opts) (bTarget opts)
                in if length selected = 0
                   then (Some ''no targets selected to build'', h3)
                   else
                     (let mopts = (if bJobs opts > 0 then [WithJobs (bJobs opts)]
                                   else [WithMaxJobs (bFast opts)])
                      in (None, buildTargets env opts project mopts selected h3)))))"

section \<open>The package command\<close>

record Pkg =
  kArchitecture :: string
  kDbg :: bool
  kForce :: bool
  kFormat :: string
  kInitrd :: string
  kKernel :: string
  kName :: string
  kOutput :: string
  kPlatform :: string
  kTarget :: string
  kVolumes :: "string list"
  kWithKConfig :: bool

text \<open>
  The \<^verbatim>\<open>case\<close> list of the \<^verbatim>\<open>switch true\<close> in \<^verbatim>\<open>PkgCmd\<close> (lines 299-324): the
  target is packaged when one of the five expressions is true.
\<close>

definition pkgCase :: "Pkg \<Rightarrow> Target \<Rightarrow> bool" where
  "pkgCase opts targ =
     ((length (kTarget opts) = 0 \<and> length (kArchitecture opts) = 0
         \<and> length (kPlatform opts) = 0)
      \<or> (length (kTarget opts) > 0 \<and> tName targ = kTarget opts)
      \<or> (length (kArchitecture opts) > 0 \<and> length (kPlatform opts) = 0
         \<and> tArchitecture targ = kArchitecture opts)
      \<or> (length (kPlatform opts) > 0 \<and> length (kArchitecture opts) = 0
         \<and> tPlatform targ = kPlatform opts)
      \<or> (length (kPlatform opts) > 0 \<and> length (kArchitecture opts) > 0
         \<and> tArchitecture targ = kArchitecture opts \<and> tPlatform targ = kPlatform opts))"

text \<open>
  Lines 326-332: \<^verbatim>\<open>var format pack.PackageFormat\<close> starts as Go's zero value, the empty
  string, and is assigned in two of the three branches only.
\<close>

definition pkgFormat :: "Pkg \<Rightarrow> Target \<Rightarrow> PackageFormat" where
  "pkgFormat opts targ =
     (if kFormat opts \<noteq> ''auto'' then kFormat opts
      else if tFormat targ \<noteq> [] then tFormat targ
      else [])"

text \<open>
  Lines 360-369: the target handed to \<^verbatim>\<open>Pack\<close> carries the name given in the options
  and the architecture, platform, configuration, kernel, initrd and command of the
  project's target; no format is set on it.
\<close>

definition pkgSnapshot :: "Pkg \<Rightarrow> Target \<Rightarrow> Target" where
  "pkgSnapshot opts targ =
     \<lparr> tName = kName opts, tArchitecture = tArchitecture targ, tPlatform = tPlatform targ,
       tFormat = [], tKConfig = tKConfig targ, tKernel = tKernel targ,
       tKernelDbg = tKernelDbg targ, tInitrd = tInitrd targ, tCommand = tCommand targ \<rparr>"

text \<open>
  Lines 338-346: the package manager used for the target, the process-wide one unless
  the format differs from \<^verbatim>\<open>auto\<close>, in which case \<^verbatim>\<open>From\<close> is called with the format.
\<close>

definition pkgRoute ::
  "env \<Rightarrow> PackageFormat \<Rightarrow> event list \<Rightarrow> (error + PackageManager) \<times> event list" where
  "pkgRoute env format h =
     (if format \<noteq> ''auto''
      then (pm_From env h (packmanager_G env) format, h @ [EvFrom (packmanager_G env) format])
      else (Inr (packmanager_G env), h))"

text \<open>
  Lines 326-376, the body of the \<^verbatim>\<open>case\<close>, for one matching target. The label
  \<^verbatim>\<open>name\<close> of lines 327-335 is built and never read; it is left out.
\<close>

definition pkgTarget ::
  "env \<Rightarrow> Pkg \<Rightarrow> Target \<Rightarrow> event list \<Rightarrow> error option \<times> event list" where
  "pkgTarget env opts targ h =
     (case pkgRoute env (pkgFormat opts targ) h of
        (Inl err, h1) \<Rightarrow> (Some err, h1)
      | (Inr pm, h1) \<Rightarrow>
          (let popts = [PackKConfig (kWithKConfig opts), PackOutput (kOutput opts),
                        PackInitrd (kInitrd opts)]
                       @ (case map_of (tKConfig targ) (unikraft_UK_FULLVERSION env) of
                            Some ukversion \<Rightarrow> [PackWithKernelVersion ukversion]
                          | None \<Rightarrow> []);
               h2 = h1 @ [EvNewTarget (pkgSnapshot opts targ)]
           in case target_NewTargetFromOptions env h1 (pkgSnapshot opts targ) of
                Inl err \<Rightarrow> (Some err, h2)
              | Inr targWithName \<Rightarrow>
                  (case pm_Pack env h2 pm targWithName popts of
                     Inl err \<Rightarrow> (Some err, h2 @ [EvPack pm targWithName popts])
                   | Inr _ \<Rightarrow> (None, h2 @ [EvPack pm targWithName popts]))))"

text \<open>Lines 295-383: the loop over the project's targets, and the final \<^verbatim>\<open>return nil\<close>.\<close>

fun pkgTargets ::
  "env \<Rightarrow> Pkg \<Rightarrow> Target list \<Rightarrow> event list \<Rightarrow> error option \<times> event list" where
  "pkgTargets env opts [] h = (None, h)"
| "pkgTargets env opts (targ # rest) h =
     (if pkgCase opts targ
      then (case pkgTarget env opts targ h of
              (Some err, h1) \<Rightarrow> (Some err, h1)
            | (None, h1) \<Rightarrow> pkgTargets env opts rest h1)
      else pkgTargets env opts rest h)"

definition PkgCmd ::
  "env \<Rightarrow> Pkg \<Rightarrow> string list \<Rightarrow> event list \<Rightarrow> error option \<times> event list" where
  "PkgCmd env opts args h =
     (case argsWorkdir env args h of
        (Inl err, h1) \<Rightarrow> (Some err, h1)
      | (Inr workdir, h1) \<Rightarrow>
          (case app_NewProjectFromOptions env h1 workdir [] of
             Inl err \<Rightarrow> (Some err, h1 @ [EvNewProject workdir []])
           | Inr project \<Rightarrow>
               pkgTargets env opts (pTargets project) (h1 @ [EvNewProject workdir []])))"

section \<open>The pull command\<close>

record Pull =
  uAllVersions :: bool
  uArchitecture :: string
  uManager :: string
  uForceCache :: bool
  uNoChecksum :: bool
  uNoDeps :: bool
  uPlatform :: string
  uWithDeps :: bool
  uWorkdir :: string

record pmQuery =
  pq_pm :: PackageManager
  pq_query :: CatalogQuery

text \<open>
  \<^verbatim>\<open>PullCmd\<close>, lines 431-452: the working directory, the argument list (the working
  directory when no argument is given) and the package manager, forced by
  \<^verbatim>\<open>opts.Manager\<close> when it is neither empty nor \<^verbatim>\<open>auto\<close>.
\<close>

definition pullSetup ::
  "env \<Rightarrow> Pull \<Rightarrow> string list \<Rightarrow> event list
     \<Rightarrow> (error + string \<times> string list \<times> PackageManager) \<times> event list" where
  "pullSetup env opts args h =
     (case (if length (uWorkdir opts) = 0
            then (os_Getwd env h, h @ [EvGetwd])
            else (Inr (uWorkdir opts), h)) of
        (Inl err, h1) \<Rightarrow> (Inl err, h1)
      | (Inr workdir, h1) \<Rightarrow>
          (let args' = (if length args = 0 then [workdir] else args)
           in if length (uManager opts) > 0 \<and> uManager opts \<noteq> ''auto''
              then (case pm_From env h1 (packmanager_G env) (uManager opts) of
                      Inl err \<Rightarrow> (Inl err, h1 @ [EvFrom (packmanager_G env) (uManager opts)])
                    | Inr pm \<Rightarrow>
                        (Inr (workdir, args', pm),
                         h1 @ [EvFrom (packmanager_G env) (uManager opts)]))
              else (Inr (workdir, args', packmanager_G env), h1)))"

text \<open>
  Lines 474-499: when the components of the project cannot be enumerated, the template
  is looked up in the catalog and pulled; the value \<^verbatim>\<open>Pull\<close> returns is not bound.
  \<^verbatim>\<open>packages[0]\<close> is read only when the list has exactly one element.
\<close>

definition pullTemplate ::
  "env \<Rightarrow> Pull \<Rightarrow> PackageManager \<Rightarrow> string \<Rightarrow> Project \<Rightarrow> event list
     \<Rightarrow> error option \<times> event list" where
  "pullTemplate env opts pm workdir project h =
     (case project_Components env h project of
        Inr _ \<Rightarrow> (None, h @ [EvComponents project])
      | Inl _ \<Rightarrow>
          (let query = \<lparr> qName = cName (pTemplate project), qTypes = [ComponentTypeApp],
                         qVersion = cVersion (pTemplate project), qSource = [],
                         qNoCache = (\<not> uForceCache opts) \<rparr>;
               h1 = h @ [EvComponents project];
               h2 = h1 @ [EvCatalog pm query]
           in case pm_Catalog env h1 pm query of
                Inl err \<Rightarrow> (Some err, h2)
              | Inr packages \<Rightarrow>
                  (case packages of
                     [] \<Rightarrow>
                       (Some (''could not find: ''
                              @ unikraft_TypeNameVersion env (pTemplate project)), h2)
                   | [p] \<Rightarrow>
                       (let _ = pack_Pull env h2 p [WithPullWorkdir workdir]
                        in (None, h2 @ [EvPull p [WithPullWorkdir workdir]]))
                   | _ \<Rightarrow>
                       (Some (''too many options for ''
                              @ unikraft_TypeNameVersion env (pTemplate project)), h2))))"

text \<open>Lines 525-536: one query per component of the merged project.\<close>

definition componentQueries :: "Pull \<Rightarrow> PackageManager \<Rightarrow> Component list \<Rightarrow> pmQuery list" where
  "componentQueries opts pm components =
     map (\<lambda>c. \<lparr> pq_pm = pm,
                pq_query = \<lparr> qName = cName c, qTypes = [cType c], qVersion = cVersion c,
                             qSource = cSource c, qNoCache = (\<not> uForceCache opts) \<rparr> \<rparr>)
         components"

text \<open>
  Lines 464-536, directory mode: load the project, fetch the template if needed, merge
  the template's project into it, and list the components of the result.
\<close>

definition pullDirectory ::
  "env \<Rightarrow> Pull \<Rightarrow> PackageManager \<Rightarrow> string \<Rightarrow> event list
     \<Rightarrow> (error + pmQuery list) \<times> event list" where
  "pullDirectory env opts pm workdir h =
     (case app_NewProjectFromOptions env h workdir [] of
        Inl err \<Rightarrow> (Inl err, h @ [EvNewProject workdir []])
      | Inr project \<Rightarrow>
          (case pullTemplate env opts pm workdir project (h @ [EvNewProject workdir []]) of
             (Some err, h1) \<Rightarrow> (Inl err, h1)
           | (None, h1) \<Rightarrow>
               (let h2 = h1 @ [EvPlaceComponent workdir (cType (pTemplate project))
                                  (cName (pTemplate project))]
                in case unikraft_PlaceComponent env h1 workdir (cType (pTemplate project))
                          (cName (pTemplate project)) of
                     Inl err \<Rightarrow> (Inl err, h2)
                   | Inr templateWorkdir \<Rightarrow>
                       (let h3 = h2 @ [EvNewProject templateWorkdir []]
                        in case app_NewProjectFromOptions env h2 templateWorkdir [] of
                             Inl err \<Rightarrow> (Inl err, h3)
                           | Inr templateProject \<Rightarrow>
                               (let h4 = h3 @ [EvMergeTemplate templateProject project]
                                in case project_MergeTemplate env h3 templateProject project of
                                     Inl err \<Rightarrow> (Inl err, h4)
                                   | Inr merged \<Rightarrow>
                                       (case project_Components env h4 merged of
                                          Inl err \<Rightarrow> (Inl err, h4 @ [EvComponents merged])
                                        | Inr components \<Rightarrow>
                                            (Inr (componentQueries opts pm components),
                                             h4 @ [EvComponents merged])))))))"

text \<open>
  Lines 540-553, list mode: every argument is probed with the package manager of the
  setup (the \<^verbatim>\<open>pm\<close> declared inside the loop shadows it within one iteration only).
\<close>

fun probeArgs ::
  "env \<Rightarrow> Pull \<Rightarrow> PackageManager \<Rightarrow> string list \<Rightarrow> pmQuery list \<Rightarrow> event list
     \<Rightarrow> pmQuery list \<times> event list" where
  "probeArgs env opts pm [] queries h = (queries, h)"
| "probeArgs env opts pm (arg # rest) queries h =
     (case pm_IsCompatible env h pm arg of
        Inl err \<Rightarrow> probeArgs env opts pm rest queries (h @ [EvIsCompatible pm arg])
      | Inr (pm', compatible) \<Rightarrow>
          if \<not> compatible
          then probeArgs env opts pm rest queries (h @ [EvIsCompatible pm arg])
          else probeArgs env opts pm rest
                 (queries @ [\<lparr> pq_pm = pm',
                               pq_query = \<lparr> qName = arg, qTypes = [], qVersion = [],
                                            qSource = [],
                                            qNoCache = (\<not> uForceCache opts) \<rparr> \<rparr>])
                 (h @ [EvIsCompatible pm arg]))"

text \<open>
  Lines 556-580: run every query; a failed or empty one is logged and skipped, the
  packages of the others are pulled (the value \<^verbatim>\<open>Pull\<close> returns is not bound).
\<close>

fun runQueries ::
  "env \<Rightarrow> Pull \<Rightarrow> PackageManager \<Rightarrow> string \<Rightarrow> pmQuery list \<Rightarrow> event list \<Rightarrow> event list" where
  "runQueries env opts pm workdir [] h = h"
| "runQueries env opts pm workdir (c # rest) h =
     (let h1 = h @ [EvCatalog (pq_pm c) (pq_query c)]
      in case pm_Catalog env h (pq_pm c) (pq_query c) of
           Inl err \<Rightarrow>
             runQueries env opts pm workdir rest
               (h1 @ [EvWarn [(''format'', pm_Format env pm),
                              (''name'', qName (pq_query c))] err])
         | Inr next \<Rightarrow>
             if length next = 0
             then runQueries env opts pm workdir rest
                    (h1 @ [EvWarn [] (''could not find '' @ query_String env (pq_query c))])
             else runQueries env opts pm workdir rest
                    (pullPacks env
                       [WithPullWorkdir workdir, WithPullChecksum (\<not> uNoChecksum opts),
                        WithPullCache (uForceCache opts)]
                       next h1))"

text \<open>
  \<^verbatim>\<open>PullCmd\<close>, lines 428-583. After the setup the argument list is never empty, so
  \<^verbatim>\<open>args[0]\<close> exists and the \<^verbatim>\<open>else if len(args) > 0\<close> branch is the only alternative to
  the directory mode. In directory mode \<^verbatim>\<open>workdir\<close> becomes \<^verbatim>\<open>args[0]\<close>.
\<close>

definition PullCmd ::
  "env \<Rightarrow> Pull \<Rightarrow> string list \<Rightarrow> event list \<Rightarrow> error option \<times> event list" where
  "PullCmd env opts args h =
     (case pullSetup env opts args h of
        (Inl err, h1) \<Rightarrow> (Some err, h1)
      | (Inr (workdir, args', pm), h1) \<Rightarrow>
          (case args' of
             [] \<Rightarrow> (None, h1)
           | arg0 # _ \<Rightarrow>
               (let h2 = h1 @ [EvStat arg0]
                in if os_Stat env h1 arg0 = StatOk True
                   then (case pullDirectory env opts pm arg0 h2 of
                           (Inl err, h3) \<Rightarrow> (Some err, h3)
                         | (Inr queries, h3) \<Rightarrow>
                             (None, runQueries env opts pm arg0 queries h3))
                   else (case probeArgs env opts pm args' [] h2 of
                           (queries, h3) \<Rightarrow>
                             (None, runQueries env opts pm workdir queries h3)))))"

section \<open>The set command\<close>

record Set_opts =
  sWorkdir :: string

text \<open>
  \<^verbatim>\<open>SetCmd\<close>, lines 683-689: an argument is accepted when it contains \<^verbatim>\<open>=\<close> and does not
  end with it; the loop returns at the first argument that is not.
\<close>

definition malformed :: "string \<Rightarrow> bool" where
  "malformed arg = (CHR ''='' \<notin> set arg \<or> (arg \<noteq> [] \<and> last arg = CHR ''=''))"

fun confOptions :: "string list \<Rightarrow> string list \<Rightarrow> error + string list" where
  "confOptions [] confOpts = Inr confOpts"
| "confOptions (arg # rest) confOpts =
     (if malformed arg then Inl (''invalid or malformed argument: '' @ arg)
      else confOptions rest (confOpts @ [arg]))"

text \<open>\<^verbatim>\<open>SetCmd\<close>, lines 659-712.\<close>

definition SetCmd ::
  "env \<Rightarrow> Set_opts \<Rightarrow> string list \<Rightarrow> event list \<Rightarrow> error option \<times> event list" where
  "SetCmd env opts args h =
     (if length args = 0 then (Some ''no options to set'', h)
      else
        case (if sWorkdir opts \<noteq> [] then (Inr (sWorkdir opts), h)
              else (os_Getwd env h, h @ [EvGetwd])) of
          (Inl err, h1) \<Rightarrow> (Some err, h1)
        | (Inr workdir, h1) \<Rightarrow>
            (case confOptions args [] of
               Inl err \<Rightarrow> (Some err, h1)
             | Inr confOpts \<Rightarrow>
                 (let dotconfig = workdir @ ''/.config'';
                      h2 = h1 @ [EvStat dotconfig]
                  in if os_Stat env h1 dotconfig = StatNotExist
                     then (Some (''dotconfig file does not exist: '' @ dotconfig), h2)
                     else
                       case app_NewProjectFromOptions env h2 workdir confOpts of
                         Inl err \<Rightarrow> (Some err, h2 @ [EvNewProject workdir confOpts])
                       | Inr project \<Rightarrow>
                           (project_Set env (h2 @ [EvNewProject workdir confOpts]) project,
                            h2 @ [EvNewProject workdir confOpts, EvSet project]))))"

section \<open>Observing the events\<close>

text \<open>The catalog queries among the events.\<close>

fun isCatalogEvent :: "event \<Rightarrow> bool" where
  "isCatalogEvent (EvCatalog pm query) = True"
| "isCatalogEvent _ = False"

section \<open>A sample world\<close>

text \<open>
  A project with two targets and one library component, in a world where every catalog
  query finds exactly one package, and where every pull and every configure, prepare and
  build stage fails. Variations of it are used for the concrete evaluations.
\<close>

definition compLwip :: Component where
  "compLwip = \<lparr> cName = ''lwip'', cType = ComponentTypeLib, cVersion = ''stable'',
                cSource = ''https://github.com/unikraft/lib-lwip'' \<rparr>"

definition compNewlib :: Component where
  "compNewlib = \<lparr> cName = ''newlib'', cType = ComponentTypeLib, cVersion = ''stable'',
                  cSource = [] \<rparr>"

definition appTemplate :: Component where
  "appTemplate = \<lparr> cName = ''app-base'', cType = ComponentTypeApp, cVersion = ''1.0'',
                   cSource = [] \<rparr>"

definition project0 :: Project where
  "project0 = \<lparr> pWorkdir = ''/work'', pTargets = [targetA, targetB],
                pTemplate = appTemplate \<rparr>"

definition env0 :: env where
  "env0 =
     \<lparr> os_Getwd = (\<lambda>h. Inr ''/work''),
       os_Stat = (\<lambda>h path. StatOk False),
       app_NewProjectFromOptions = (\<lambda>h workdir conf. Inr project0),
       app_IsWorkdirInitialized = (\<lambda>h workdir. True),
       project_Components = (\<lambda>h project. Inr [compLwip, compNewlib]),
       project_Configure = (\<lambda>h project targ mopts. Some ''configure failed''),
       project_Prepare = (\<lambda>h project targ mopts. Some ''prepare failed''),
       project_Build = (\<lambda>h project targ bopts. Some ''build failed''),
       project_MergeTemplate = (\<lambda>h templateProject project. Inr project),
       project_Set = (\<lambda>h project. None),
       packmanager_G = ''umbrella'',
       pm_Catalog = (\<lambda>h pm query. Inr [''pkg-'' @ qName query]),
       pm_From = (\<lambda>h pm format.
                    if format = ''raw'' \<or> format = ''qcow2'' then Inr format
                    else Inl (''unknown package manager: '' @ format)),
       pm_IsCompatible = (\<lambda>h pm arg. Inr (''manifest'', True)),
       pm_Pack = (\<lambda>h pm targ popts. Inr (''pkg-'' @ tName targ)),
       pm_Format = (\<lambda>pm. pm),
       pack_Pull = (\<lambda>h p popts. Some ''pull failed''),
       target_NewTargetFromOptions = (\<lambda>h targ. Inr targ),
       unikraft_PlaceComponent = (\<lambda>h workdir ty name. Inr (workdir @ ''/.unikraft/apps/'' @ name)),
       unikraft_TypeNameVersion = (\<lambda>c. cName c @ '':'' @ cVersion c),
       unikraft_UK_FULLVERSION = ''CONFIG_UK_FULLVERSION'',
       query_String = qName \<rparr>"

text \<open>
  A catalog that knows nothing under the name \<open>miss\<close>, has two entries under \<open>twice\<close>
  and cannot be reached for \<open>down\<close>.
\<close>

definition catalog1 :: "event list \<Rightarrow> PackageManager \<Rightarrow> CatalogQuery \<Rightarrow> error + Package list" where
  "catalog1 h pm query =
     (if qName query = ''miss'' then Inr []
      else if qName query = ''twice'' then Inr [''twice-1'', ''twice-2'']
      else if qName query = ''down'' then Inl ''catalog unreachable''
      else Inr [''pkg-'' @ qName query])"

definition compMiss :: Component where
  "compMiss = \<lparr> cName = ''miss'', cType = ComponentTypeLib, cVersion = ''0.1'', cSource = [] \<rparr>"

definition compTwice :: Component where
  "compTwice = \<lparr> cName = ''twice'', cType = ComponentTypeLib, cVersion = ''0.2'', cSource = [] \<rparr>"

text \<open>The sample world with the catalog above and a given list of components.\<close>

definition envWith :: "Component list \<Rightarrow> env" where
  "envWith cs = env0\<lparr> project_Components := (\<lambda>h project. Inr cs), pm_Catalog := catalog1 \<rparr>"

text \<open>The events of a successful load of the sample project, and the query of a component.\<close>

definition hLoad :: "event list" where
  "hLoad = [EvNewProject ''/work'' [], EvIsWorkdirInitialized ''/work'', EvComponents project0]"

definition sampleQuery :: "Component \<Rightarrow> CatalogQuery" where
  "sampleQuery c = \<lparr> qName = cName c, qTypes = [cType c], qVersion = cVersion c,
                     qSource = cSource c, qNoCache = False \<rparr>"

text \<open>
  A world for list-mode pulls: no package manager claims \<open>bogus\<close>, the compatibility
  probe itself fails for \<open>broken\<close>, and the catalog is the one above.
\<close>

definition envPull :: env where
  "envPull =
     env0\<lparr> pm_IsCompatible :=
             (\<lambda>h pm arg. if arg = ''bogus'' then Inr (pm, False)
                         else if arg = ''broken'' then Inl ''probe failed''
                         else Inr (''manifest'', True)),
           pm_Catalog := catalog1 \<rparr>"

text \<open>
  A world for directory-mode pulls of a project whose components cannot be listed and
  whose template is not in the catalog.
\<close>

definition envTemplate :: env where
  "envTemplate =
     env0\<lparr> os_Stat := (\<lambda>h path. StatOk True),
           project_Components := (\<lambda>h project. Inl ''template not fetched''),
           pm_Catalog := (\<lambda>h pm query. Inr []) \<rparr>"

text \<open>The sample world with a directory at every path.\<close>

definition envDir :: env where
  "envDir = env0\<lparr> os_Stat := (\<lambda>h path. StatOk True) \<rparr>"

text \<open>The query made in list mode for an argument claimed by the \<open>manifest\<close> manager.\<close>

definition sampleNameQuery :: "string \<Rightarrow> pmQuery" where
  "sampleNameQuery arg =
     \<lparr> pq_pm = ''manifest'',
       pq_query = \<lparr> qName = arg, qTypes = [], qVersion = [], qSource = [], qNoCache = True \<rparr> \<rparr>"

definition build0 :: Build where
  "build0 = \<lparr> bArchitecture = [], bDotConfig = [], bFast = False, bJobs = 0,
              bKernelDbg = False, bNoCache = False, bNoConfigure = False, bNoFetch = False,
              bNoPrepare = False, bPlatform = [], bSaveBuildLog = [], bTarget = [] \<rparr>"

definition pkg0 :: Pkg where
  "pkg0 = \<lparr> kArchitecture = [], kDbg = False, kForce = False, kFormat = ''auto'',
            kInitrd = [], kKernel = [], kName = ''image'', kOutput = [], kPlatform = [],
            kTarget = [], kVolumes = [], kWithKConfig = False \<rparr>"

definition pull0 :: Pull where
  "pull0 = \<lparr> uAllVersions = False, uArchitecture = [], uManager = [], uForceCache = False,
             uNoChecksum = False, uNoDeps = False, uPlatform = [], uWithDeps = False,
             uWorkdir = ''/work'' \<rparr>"

section \<open>Properties of target selection\<close>

lemma applyConditions_conditions:
  "applyConditions conditions t arch plat targ selected =
     selected
     @ (if targ = [] \<and> arch = [] \<and> plat = [] then [t] else [])
     @ (if nameMatch t targ then [t] else [])
     @ (if archPlatMatch t arch plat then [t] else [])"
  by (auto simp: conditions_def nameMatch_def archPlatMatch_def)

lemma applyConditions_once:
  assumes "\<not> (nameMatch t targ \<and> archPlatMatch t arch plat)"
  shows "applyConditions conditions t arch plat targ selected =
           (if selects t arch plat targ then selected @ [t] else selected)"
  using assms unfolding applyConditions_conditions
  by (auto simp: selects_def nameMatch_def archPlatMatch_def)

lemma filterLoop_filter:
  assumes "\<forall>u \<in> set ts. \<not> (nameMatch u targ \<and> archPlatMatch u arch plat)"
  shows "filterLoop ts arch plat targ selected =
           selected @ filter (\<lambda>u. selects u arch plat targ) ts"
  using assms
proof (induction ts arbitrary: selected)
  case Nil
  then show ?case by simp
next
  case (Cons t ts)
  then show ?case by (simp add: applyConditions_once)
qed

lemma FilterTargets_filter:
  assumes "\<forall>u \<in> set ts. \<not> (nameMatch u targ \<and> archPlatMatch u arch plat)"
  shows "FilterTargets ts arch plat targ = filter (\<lambda>u. selects u arch plat targ) ts"
  using filterLoop_filter [OF assms, of "[]"] by (simp add: FilterTargets_def)

lemma filter_unique_key:
  assumes "distinct (map f xs)" and "x \<in> set xs"
  shows "filter (\<lambda>u. f u = f x) xs = [x]"
  using assms
proof (induction xs)
  case Nil
  then show ?case by simp
next
  case (Cons y ys)
  show ?case
  proof (cases "y = x")
    case True
    from Cons.prems have "f x \<notin> f ` set ys" using True by simp
    then have "filter (\<lambda>u. f u = f x) ys = []"
      by (auto simp: filter_empty_conv image_iff)
    with True show ?thesis by simp
  next
    case False
    with Cons.prems have xin: "x \<in> set ys" by simp
    with Cons.prems have "f y \<noteq> f x" by force
    moreover from Cons.IH Cons.prems xin have "filter (\<lambda>u. f u = f x) ys = [x]" by simp
    ultimately show ?thesis by simp
  qed
qed

text \<open>
  Claim C7. With the architecture, platform and name filters all empty,
  \<^verbatim>\<open>FilterTargets\<close> returns every target of the set, in the original order.
\<close>

theorem FilterTargets_no_filters:
  "FilterTargets ts [] [] [] = ts"
proof -
  have "FilterTargets ts [] [] [] = filter (\<lambda>u. selects u [] [] []) ts"
    by (rule FilterTargets_filter) (simp add: nameMatch_def)
  also have "\<dots> = ts"
    by (simp add: selects_def)
  finally show ?thesis .
qed

text \<open>
  Claim C2, as stated: selecting by the name of a target returns exactly that target
  whatever the architecture and platform filters are, and no target appears twice.
  The code appends a target once per condition it satisfies, and the architecture
  condition selects independently of the name: with targets \<open>a\<close> and \<open>c\<close> on
  \<open>x86_64\<close>, the filters name \<open>a\<close>, architecture \<open>x86_64\<close> yield \<open>a\<close> twice and \<open>c\<close>.
\<close>

theorem FilterTargets_name_with_arch_counterexample:
  "distinct (map tName [targetA, targetA\<lparr>tName := ''c''\<rparr>])
   \<and> targetA \<in> set [targetA, targetA\<lparr>tName := ''c''\<rparr>]
   \<and> FilterTargets [targetA, targetA\<lparr>tName := ''c''\<rparr>] ''x86_64'' [] (tName targetA)
       = [targetA, targetA, targetA\<lparr>tName := ''c''\<rparr>]
   \<and> FilterTargets [targetA, targetA\<lparr>tName := ''c''\<rparr>] ''x86_64'' [] (tName targetA)
       \<noteq> [targetA]
   \<and> \<not> distinct (FilterTargets [targetA, targetA\<lparr>tName := ''c''\<rparr>] ''x86_64'' []
                    (tName targetA))"
  by (simp add: FilterTargets_def conditions_def targetA_def)

text \<open>
  Claim C2, amended. For a target set with unique names and a target \<open>t\<close> of it whose
  name is not empty, \<^verbatim>\<open>FilterTargets\<close> with the name filter equal to the name of \<open>t\<close>
  returns exactly \<open>[t]\<close> whenever no target of the set matches the architecture and
  platform filters (in particular when both are empty, the only combination that
  \<^verbatim>\<open>BuildCmd\<close> lets through together with a name). And whenever no target matches both
  the name criterion and an architecture/platform criterion, every target of a
  duplicate-free set appears at most once in the result.
\<close>

theorem FilterTargets_by_name:
  "(distinct (map tName ts) \<and> t \<in> set ts \<and> tName t \<noteq> []
      \<and> (\<forall>u \<in> set ts. \<not> archPlatMatch u arch plat)
     \<longrightarrow> FilterTargets ts arch plat (tName t) = [t])
   \<and> (distinct ts \<and> (\<forall>u \<in> set ts. \<not> (nameMatch u targ \<and> archPlatMatch u arch' plat'))
     \<longrightarrow> distinct (FilterTargets ts arch' plat' targ))"
proof (intro conjI impI)
  assume a: "distinct (map tName ts) \<and> t \<in> set ts \<and> tName t \<noteq> []
      \<and> (\<forall>u \<in> set ts. \<not> archPlatMatch u arch plat)"
  then have "FilterTargets ts arch plat (tName t) = filter (\<lambda>u. selects u arch plat (tName t)) ts"
    by (intro FilterTargets_filter) simp
  also from a have "\<dots> = filter (\<lambda>u. tName u = tName t) ts"
    by (intro filter_cong) (auto simp: selects_def nameMatch_def)
  also from a have "\<dots> = [t]"
    by (simp add: filter_unique_key)
  finally show "FilterTargets ts arch plat (tName t) = [t]" .
next
  assume b: "distinct ts \<and> (\<forall>u \<in> set ts. \<not> (nameMatch u targ \<and> archPlatMatch u arch' plat'))"
  then have "FilterTargets ts arch' plat' targ = filter (\<lambda>u. selects u arch' plat' targ) ts"
    by (intro FilterTargets_filter) simp
  with b show "distinct (FilterTargets ts arch' plat' targ)" by simp
qed

theorem FilterTargets_by_name_witness:
  "distinct (map tName [targetA, targetB]) \<and> targetB \<in> set [targetA, targetB]
   \<and> tName targetB \<noteq> [] \<and> list_all (\<lambda>u. \<not> archPlatMatch u [] []) [targetA, targetB]
   \<and> FilterTargets [targetA, targetB] [] [] (tName targetB) = [targetB]
   \<and> distinct [targetA, targetB]
   \<and> list_all (\<lambda>u. \<not> (nameMatch u [] \<and> archPlatMatch u ''x86_64'' [])) [targetA, targetB]
   \<and> distinct (FilterTargets [targetA, targetB] ''x86_64'' [] [])"
  using FilterTargets_by_name [of "[targetA, targetB]" targetB "[]" "[]" "[]" "''x86_64''" "[]"]
  by (simp add: targetA_def targetB_def archPlatMatch_def nameMatch_def)

section \<open>Properties of the build command\<close>

lemma pullPacks_events:
  "pullPacks env popts packs h = h @ map (\<lambda>p. EvPull p popts) packs"
  by (induction packs arbitrary: h) simp_all

lemma resolveComponents_append:
  "resolveComponents env noCache (xs @ ys) acc h =
     (case resolveComponents env noCache xs acc h of
        (Inl err, h') \<Rightarrow> (Inl err, h')
      | (Inr acc', h') \<Rightarrow> resolveComponents env noCache ys acc' h')"
  by (induction xs arbitrary: acc h) (simp_all add: Let_def split: sum.splits)

lemma resolveComponents_success:
  assumes "resolveComponents env noCache cs acc h = (Inr packs, h')"
  shows "h' = h @ map (\<lambda>c. EvCatalog (packmanager_G env)
                           \<lparr> qName = cName c, qTypes = [cType c], qVersion = cVersion c,
                             qSource = cSource c, qNoCache = noCache \<rparr>) cs
         \<and> length packs = length acc + length cs"
  using assms
proof (induction cs arbitrary: acc h)
  case Nil
  then show ?case by simp
next
  case (Cons c cs)
  from Cons.prems obtain p where
    cat: "pm_Catalog env h (packmanager_G env)
            \<lparr> qName = cName c, qTypes = [cType c], qVersion = cVersion c,
              qSource = cSource c, qNoCache = noCache \<rparr> = Inr p"
    and len: "length p = 1"
    and rest: "resolveComponents env noCache cs (acc @ p)
                 (h @ [EvCatalog (packmanager_G env)
                         \<lparr> qName = cName c, qTypes = [cType c], qVersion = cVersion c,
                           qSource = cSource c, qNoCache = noCache \<rparr>]) = (Inr packs, h')"
    by (auto simp: Let_def less_Suc_eq_le le_Suc_eq not_less split: sum.splits if_splits)
  from Cons.IH [OF rest] len show ?case by simp
qed

lemma resolveComponents_pull_irrelevant:
  "resolveComponents (env\<lparr>pack_Pull := f\<rparr>) noCache cs acc h = resolveComponents env noCache cs acc h"
  by (induction cs arbitrary: acc h) (simp_all add: Let_def split: sum.splits)

lemma buildTargets_pull_irrelevant:
  "buildTargets (env\<lparr>pack_Pull := f\<rparr>) opts project mopts ts h = buildTargets env opts project mopts ts h"
  by (induction ts arbitrary: h) (simp_all add: Let_def)

lemma buildLoad_pull_irrelevant:
  "buildLoad (env\<lparr>pack_Pull := f\<rparr>) opts args h = buildLoad env opts args h"
  by (cases args)
     (simp_all add: buildLoad_def Let_def cong: sum.case_cong prod.case_cong if_cong)

lemma buildTargets_stages_irrelevant:
  "buildTargets (env\<lparr>project_Configure := fc, project_Prepare := fp, project_Build := fb\<rparr>)
     opts project mopts ts h = buildTargets env opts project mopts ts h"
  by (induction ts arbitrary: h) (simp_all add: Let_def)

lemma resolveComponents_stages_irrelevant:
  "resolveComponents (env\<lparr>project_Configure := fc, project_Prepare := fp, project_Build := fb\<rparr>)
     noCache cs acc h = resolveComponents env noCache cs acc h"
  by (induction cs arbitrary: acc h) (simp_all add: Let_def split: sum.splits)

lemma buildLoad_stages_irrelevant:
  "buildLoad (env\<lparr>project_Configure := fc, project_Prepare := fp, project_Build := fb\<rparr>) opts args h
     = buildLoad env opts args h"
  by (cases args)
     (simp_all add: buildLoad_def Let_def cong: sum.case_cong prod.case_cong if_cong)

lemma BuildCmd_after_resolution:
  assumes "buildLoad env opts args h = (Inr (workdir, project, components), h1)"
    and "resolveComponents env (bNoCache opts) components [] h1 = (Inr packs, h2)"
  shows "BuildCmd env opts args h =
           (if FilterTargets (pTargets project) (bArchitecture opts) (bPlatform opts) (bTarget opts) = []
            then (Some ''no targets selected to build'',
                  h2 @ map (\<lambda>p. EvPull p [WithPullWorkdir workdir, WithPullCache (\<not> bNoCache opts)]) packs)
            else (None,
                  buildTargets env opts project
                    (if bJobs opts > 0 then [WithJobs (bJobs opts)] else [WithMaxJobs (bFast opts)])
                    (FilterTargets (pTargets project) (bArchitecture opts) (bPlatform opts) (bTarget opts))
                    (h2 @ map (\<lambda>p. EvPull p [WithPullWorkdir workdir, WithPullCache (\<not> bNoCache opts)]) packs)))"
  using assms by (simp add: BuildCmd_def Let_def pullPacks_events)


text \<open>
  Claim C1. Suppose the project loaded and its components are \<open>pre @ component # post\<close>,
  and every component of \<open>pre\<close> resolved. Then each of them was queried once, with
  its name, type, version and source, and gave one package; the next call is the
  catalog query for \<open>component\<close>, with its name, type, version and source. If that
  query returns no package the command fails with \<open>could not find:\<close> followed by the
  component's type/name/version string; if it returns more than one, with
  \<open>too many options for\<close> followed by the same string; if it returns exactly one, that
  package is appended to the list of packages to pull.
\<close>

theorem BuildCmd_component_resolution:
  assumes load: "buildLoad env opts args h = (Inr (workdir, project, pre @ component # post), h0)"
    and pre: "resolveComponents env (bNoCache opts) pre [] h0 = (Inr packs, h1)"
    and query: "query = \<lparr> qName = cName component, qTypes = [cType component],
                            qVersion = cVersion component, qSource = cSource component,
                            qNoCache = bNoCache opts \<rparr>"
  shows "h1 = h0 @ map (\<lambda>c. EvCatalog (packmanager_G env)
                            \<lparr> qName = cName c, qTypes = [cType c], qVersion = cVersion c,
                              qSource = cSource c, qNoCache = bNoCache opts \<rparr>) pre
         \<and> length packs = length pre
         \<and> (pm_Catalog env h1 (packmanager_G env) query = Inr []
              \<longrightarrow> BuildCmd env opts args h =
                    (Some (''could not find: '' @ unikraft_TypeNameVersion env component),
                     h1 @ [EvCatalog (packmanager_G env) query]))
         \<and> (\<forall>p. pm_Catalog env h1 (packmanager_G env) query = Inr p \<and> length p > 1
              \<longrightarrow> BuildCmd env opts args h =
                    (Some (''too many options for '' @ unikraft_TypeNameVersion env component),
                     h1 @ [EvCatalog (packmanager_G env) query]))
         \<and> (\<forall>p. pm_Catalog env h1 (packmanager_G env) query = Inr [p]
              \<longrightarrow> resolveComponents env (bNoCache opts) (pre @ [component]) [] h0 =
                    (Inr (packs @ [p]), h1 @ [EvCatalog (packmanager_G env) query]))"
proof (intro conjI allI impI)
  from resolveComponents_success [OF pre]
  show "h1 = h0 @ map (\<lambda>c. EvCatalog (packmanager_G env)
                            \<lparr> qName = cName c, qTypes = [cType c], qVersion = cVersion c,
                              qSource = cSource c, qNoCache = bNoCache opts \<rparr>) pre"
    and "length packs = length pre"
    by simp_all
next
  assume "pm_Catalog env h1 (packmanager_G env) query = Inr []"
  then have "resolveComponents env (bNoCache opts) (pre @ component # post) [] h0 =
               (Inl (''could not find: '' @ unikraft_TypeNameVersion env component),
                h1 @ [EvCatalog (packmanager_G env) query])"
    using pre query by (simp add: resolveComponents_append Let_def)
  with load show "BuildCmd env opts args h =
                    (Some (''could not find: '' @ unikraft_TypeNameVersion env component),
                     h1 @ [EvCatalog (packmanager_G env) query])"
    by (simp add: BuildCmd_def)
next
  fix p
  assume "pm_Catalog env h1 (packmanager_G env) query = Inr p \<and> length p > 1"
  then have "resolveComponents env (bNoCache opts) (pre @ component # post) [] h0 =
               (Inl (''too many options for '' @ unikraft_TypeNameVersion env component),
                h1 @ [EvCatalog (packmanager_G env) query])"
    using pre query by (auto simp: resolveComponents_append Let_def)
  with load show "BuildCmd env opts args h =
                    (Some (''too many options for '' @ unikraft_TypeNameVersion env component),
                     h1 @ [EvCatalog (packmanager_G env) query])"
    by (simp add: BuildCmd_def)
next
  fix p
  assume "pm_Catalog env h1 (packmanager_G env) query = Inr [p]"
  then show "resolveComponents env (bNoCache opts) (pre @ [component]) [] h0 =
               (Inr (packs @ [p]), h1 @ [EvCatalog (packmanager_G env) query])"
    using pre query by (simp add: resolveComponents_append Let_def)
qed


lemma envWith_buildLoad:
  "buildLoad (envWith cs) build0 [''/work''] [] = (Inr (''/work'', project0, cs), hLoad)"
  by (simp add: buildLoad_def envWith_def env0_def build0_def hLoad_def)

lemma envWith_resolve_lwip:
  "resolveComponents (envWith cs) (bNoCache build0) [compLwip] [] hLoad =
     (Inr [''pkg-lwip''], hLoad @ [EvCatalog ''umbrella'' (sampleQuery compLwip)])"
  by (simp add: envWith_def env0_def build0_def catalog1_def compLwip_def sampleQuery_def)

theorem BuildCmd_component_resolution_witness:
  "buildLoad (envWith [compLwip, compMiss]) build0 [''/work''] [] =
     (Inr (''/work'', project0, [compLwip] @ compMiss # []), hLoad)
   \<and> resolveComponents (envWith [compLwip, compMiss]) (bNoCache build0) [compLwip] [] hLoad =
       (Inr [''pkg-lwip''], hLoad @ [EvCatalog ''umbrella'' (sampleQuery compLwip)])
   \<and> pm_Catalog (envWith [compLwip, compMiss])
        (hLoad @ [EvCatalog ''umbrella'' (sampleQuery compLwip)]) ''umbrella''
        (sampleQuery compMiss) = Inr []
   \<and> BuildCmd (envWith [compLwip, compMiss]) build0 [''/work''] [] =
       (Some ''could not find: miss:0.1'',
        hLoad @ [EvCatalog ''umbrella'' (sampleQuery compLwip),
                 EvCatalog ''umbrella'' (sampleQuery compMiss)])
   \<and> pm_Catalog (envWith [compLwip, compTwice, compNewlib])
        (hLoad @ [EvCatalog ''umbrella'' (sampleQuery compLwip)]) ''umbrella''
        (sampleQuery compTwice) = Inr [''twice-1'', ''twice-2'']
   \<and> BuildCmd (envWith [compLwip, compTwice, compNewlib]) build0 [''/work''] [] =
       (Some ''too many options for twice:0.2'',
        hLoad @ [EvCatalog ''umbrella'' (sampleQuery compLwip),
                 EvCatalog ''umbrella'' (sampleQuery compTwice)])
   \<and> pm_Catalog (envWith [compLwip, compNewlib])
        (hLoad @ [EvCatalog ''umbrella'' (sampleQuery compLwip)]) ''umbrella''
        (sampleQuery compNewlib) = Inr [''pkg-newlib'']
   \<and> resolveComponents (envWith [compLwip, compNewlib]) (bNoCache build0)
        ([compLwip] @ [compNewlib]) [] hLoad =
       (Inr ([''pkg-lwip''] @ [''pkg-newlib'']),
        hLoad @ [EvCatalog ''umbrella'' (sampleQuery compLwip),
                 EvCatalog ''umbrella'' (sampleQuery compNewlib)])"
proof -
  have l1: "buildLoad (envWith [compLwip, compMiss]) build0 [''/work''] [] =
              (Inr (''/work'', project0, [compLwip] @ compMiss # []), hLoad)"
    by (simp add: envWith_buildLoad)
  have l2: "buildLoad (envWith [compLwip, compTwice, compNewlib]) build0 [''/work''] [] =
              (Inr (''/work'', project0, [compLwip] @ compTwice # [compNewlib]), hLoad)"
    by (simp add: envWith_buildLoad)
  have l3: "buildLoad (envWith [compLwip, compNewlib]) build0 [''/work''] [] =
              (Inr (''/work'', project0, [compLwip] @ compNewlib # []), hLoad)"
    by (simp add: envWith_buildLoad)
  have g: "packmanager_G (envWith cs) = ''umbrella''" for cs
    by (simp add: envWith_def env0_def)
  have t: "unikraft_TypeNameVersion (envWith cs) c = cName c @ '':'' @ cVersion c" for cs c
    by (simp add: envWith_def env0_def)
  have c: "pm_Catalog (envWith cs) = catalog1" for cs
    by (simp add: envWith_def)
  have q: "sampleQuery x = \<lparr> qName = cName x, qTypes = [cType x], qVersion = cVersion x,
             qSource = cSource x, qNoCache = bNoCache build0 \<rparr>" for x
    by (simp add: sampleQuery_def build0_def)
  have c1: "catalog1 hh ''umbrella'' (sampleQuery compMiss) = Inr []" for hh
    by (simp add: catalog1_def sampleQuery_def compMiss_def)
  have c2: "catalog1 hh ''umbrella'' (sampleQuery compTwice) = Inr [''twice-1'', ''twice-2'']" for hh
    by (simp add: catalog1_def sampleQuery_def compTwice_def)
  have c3: "catalog1 hh ''umbrella'' (sampleQuery compNewlib) = Inr [''pkg-newlib'']" for hh
    by (simp add: catalog1_def sampleQuery_def compNewlib_def)
  have n: "cName compMiss = ''miss''" "cVersion compMiss = ''0.1''"
          "cName compTwice = ''twice''" "cVersion compTwice = ''0.2''"
    by (simp_all add: compMiss_def compTwice_def)
  from BuildCmd_component_resolution [OF l1 envWith_resolve_lwip q]
  have r1: "BuildCmd (envWith [compLwip, compMiss]) build0 [''/work''] [] =
       (Some ''could not find: miss:0.1'',
        hLoad @ [EvCatalog ''umbrella'' (sampleQuery compLwip),
                 EvCatalog ''umbrella'' (sampleQuery compMiss)])"
    by (simp add: g t c c1 n)
  from BuildCmd_component_resolution [OF l2 envWith_resolve_lwip q]
  have r2: "BuildCmd (envWith [compLwip, compTwice, compNewlib]) build0 [''/work''] [] =
       (Some ''too many options for twice:0.2'',
        hLoad @ [EvCatalog ''umbrella'' (sampleQuery compLwip),
                 EvCatalog ''umbrella'' (sampleQuery compTwice)])"
    by (simp add: g t c c2 n)
  from BuildCmd_component_resolution [OF l3 envWith_resolve_lwip q]
  have r3: "resolveComponents (envWith [compLwip, compNewlib]) (bNoCache build0)
        ([compLwip] @ [compNewlib]) [] hLoad =
       (Inr ([''pkg-lwip''] @ [''pkg-newlib'']),
        hLoad @ [EvCatalog ''umbrella'' (sampleQuery compLwip),
                 EvCatalog ''umbrella'' (sampleQuery compNewlib)])"
    by (simp add: g t c c3)
  have p1: "pm_Catalog (envWith [compLwip, compMiss])
        (hLoad @ [EvCatalog ''umbrella'' (sampleQuery compLwip)]) ''umbrella''
        (sampleQuery compMiss) = Inr []"
    by (simp add: c c1)
  have p2: "pm_Catalog (envWith [compLwip, compTwice, compNewlib])
        (hLoad @ [EvCatalog ''umbrella'' (sampleQuery compLwip)]) ''umbrella''
        (sampleQuery compTwice) = Inr [''twice-1'', ''twice-2'']"
    by (simp add: c c2)
  have p3: "pm_Catalog (envWith [compLwip, compNewlib])
        (hLoad @ [EvCatalog ''umbrella'' (sampleQuery compLwip)]) ''umbrella''
        (sampleQuery compNewlib) = Inr [''pkg-newlib'']"
    by (simp add: c c3)
  show ?thesis
    by (intro conjI l1 envWith_resolve_lwip p1 r1 p2 r2 p3 r3)
qed

lemma BuildCmd_pull_irrelevant:
  "BuildCmd (env\<lparr>pack_Pull := f\<rparr>) opts args h = BuildCmd env opts args h"
  by (simp add: BuildCmd_def buildLoad_pull_irrelevant resolveComponents_pull_irrelevant
        buildTargets_pull_irrelevant pullPacks_events Let_def
      cong: sum.case_cong prod.case_cong if_cong)

lemma BuildCmd_stages_irrelevant:
  "BuildCmd (env\<lparr>project_Configure := fc, project_Prepare := fp, project_Build := fb\<rparr>) opts args h
     = BuildCmd env opts args h"
  by (simp add: BuildCmd_def buildLoad_stages_irrelevant resolveComponents_stages_irrelevant
        buildTargets_stages_irrelevant pullPacks_events Let_def
      cong: sum.case_cong prod.case_cong if_cong)

lemma sample_selected:
  "FilterTargets (pTargets project0) (bArchitecture build0) (bPlatform build0) (bTarget build0)
     = [targetA, targetB]"
  by (simp add: FilterTargets_def conditions_def project0_def build0_def)

lemma envWith_pull_fails:
  "pack_Pull (envWith cs) hh p popts = Some ''pull failed''"
  by (simp add: envWith_def env0_def)

text \<open>
  Claim C3, as stated: in the build path a failing pull makes the command fail. The
  value of \<^verbatim>\<open>p.Pull\<close> is dropped: in the sample world, where every pull fails, the
  component resolves, its package is pulled, and the command returns \<^verbatim>\<open>nil\<close>.
\<close>

theorem BuildCmd_pull_failure_counterexample:
  "resolveComponents (envWith [compLwip]) (bNoCache build0) [compLwip] [] hLoad =
     (Inr [''pkg-lwip''], hLoad @ [EvCatalog ''umbrella'' (sampleQuery compLwip)])
   \<and> pack_Pull (envWith [compLwip]) (hLoad @ [EvCatalog ''umbrella'' (sampleQuery compLwip)])
        ''pkg-lwip'' [WithPullWorkdir ''/work'', WithPullCache True] = Some ''pull failed''
   \<and> EvPull ''pkg-lwip'' [WithPullWorkdir ''/work'', WithPullCache True]
        \<in> set (snd (BuildCmd (envWith [compLwip]) build0 [''/work''] []))
   \<and> fst (BuildCmd (envWith [compLwip]) build0 [''/work''] []) = None"
proof -
  have nc: "bNoCache build0 = False" by (simp add: build0_def)
  have ev: "EvPull p popts \<in> set (buildTargets env opts project mopts ts hh)"
    if "EvPull p popts \<in> set hh" for p popts env opts project mopts ts hh
    using that by (induction ts arbitrary: hh) (simp_all add: Let_def)
  have b: "BuildCmd (envWith [compLwip]) build0 [''/work''] [] =
             (None, buildTargets (envWith [compLwip]) build0 project0
                      (if bJobs build0 > 0 then [WithJobs (bJobs build0)]
                       else [WithMaxJobs (bFast build0)])
                      [targetA, targetB]
                      ((hLoad @ [EvCatalog ''umbrella'' (sampleQuery compLwip)])
                       @ map (\<lambda>p. EvPull p [WithPullWorkdir ''/work'',
                                              WithPullCache (\<not> bNoCache build0)])
                             [''pkg-lwip'']))"
    using BuildCmd_after_resolution [OF envWith_buildLoad envWith_resolve_lwip]
    by (simp add: sample_selected)
  have m: "EvPull ''pkg-lwip'' [WithPullWorkdir ''/work'', WithPullCache True]
             \<in> set (snd (BuildCmd (envWith [compLwip]) build0 [''/work''] []))"
    unfolding b snd_conv by (rule ev) (simp add: nc)
  have n: "fst (BuildCmd (envWith [compLwip]) build0 [''/work''] []) = None"
    by (simp only: b fst_conv)
  show ?thesis
    by (intro conjI envWith_resolve_lwip envWith_pull_fails m n)
qed

text \<open>
  Claim C3, amended. In the build path, after component resolution succeeds, every
  resolved package is pulled once, in resolution order, into the working directory, and
  the value each pull returns is dropped: the command goes on to select the targets, and
  its result and its calls are the same whatever the pulls return.
\<close>

theorem BuildCmd_pull_results_unused:
  assumes "buildLoad env opts args h = (Inr (workdir, project, components), h1)"
    and "resolveComponents env (bNoCache opts) components [] h1 = (Inr packs, h2)"
    and "h3 = h2 @ map (\<lambda>p. EvPull p [WithPullWorkdir workdir, WithPullCache (\<not> bNoCache opts)])
                     packs"
    and "selected = FilterTargets (pTargets project) (bArchitecture opts) (bPlatform opts)
                      (bTarget opts)"
  shows "BuildCmd env opts args h =
           (if selected = [] then (Some ''no targets selected to build'', h3)
            else (None,
                  buildTargets env opts project
                    (if bJobs opts > 0 then [WithJobs (bJobs opts)] else [WithMaxJobs (bFast opts)])
                    selected h3))
         \<and> (\<forall>f. BuildCmd (env\<lparr>pack_Pull := f\<rparr>) opts args h = BuildCmd env opts args h)"
  using BuildCmd_after_resolution [OF assms(1,2)] assms(3,4)
  by (simp add: BuildCmd_pull_irrelevant)

theorem BuildCmd_pull_results_unused_witness:
  "buildLoad (envWith [compLwip]) build0 [''/work''] [] =
     (Inr (''/work'', project0, [compLwip]), hLoad)
   \<and> resolveComponents (envWith [compLwip]) (bNoCache build0) [compLwip] [] hLoad =
       (Inr [''pkg-lwip''], hLoad @ [EvCatalog ''umbrella'' (sampleQuery compLwip)])
   \<and> BuildCmd (envWith [compLwip]) build0 [''/work''] [] =
       (None,
        buildTargets (envWith [compLwip]) build0 project0 [WithMaxJobs False]
          [targetA, targetB]
          (hLoad @ [EvCatalog ''umbrella'' (sampleQuery compLwip),
                    EvPull ''pkg-lwip'' [WithPullWorkdir ''/work'', WithPullCache True]]))
   \<and> BuildCmd ((envWith [compLwip])\<lparr>pack_Pull := (\<lambda>hh p popts. None)\<rparr>) build0 [''/work''] [] =
       BuildCmd (envWith [compLwip]) build0 [''/work''] []"
proof -
  have nc: "bNoCache build0 = False" "bJobs build0 = 0" "bFast build0 = False"
    by (simp_all add: build0_def)
  note t = BuildCmd_pull_results_unused [OF envWith_buildLoad envWith_resolve_lwip refl refl]
  from t have a: "BuildCmd (envWith [compLwip]) build0 [''/work''] [] =
       (None,
        buildTargets (envWith [compLwip]) build0 project0 [WithMaxJobs False]
          [targetA, targetB]
          (hLoad @ [EvCatalog ''umbrella'' (sampleQuery compLwip),
                    EvPull ''pkg-lwip'' [WithPullWorkdir ''/work'', WithPullCache True]]))"
    by (simp add: sample_selected nc)
  from t have b: "BuildCmd ((envWith [compLwip])\<lparr>pack_Pull := (\<lambda>hh p popts. None)\<rparr>) build0
                    [''/work''] [] = BuildCmd (envWith [compLwip]) build0 [''/work''] []"
    by blast
  show ?thesis
    by (intro conjI envWith_buildLoad envWith_resolve_lwip a b)
qed

text \<open>
  Claim C10. When the project loads, every component resolves and at least one target
  is selected, \<^verbatim>\<open>BuildCmd\<close> returns \<^verbatim>\<open>nil\<close>; what the configure, prepare and build calls
  return changes neither the result nor the calls made.
\<close>

theorem BuildCmd_stage_results_unused:
  assumes "buildLoad env opts args h = (Inr (workdir, project, components), h1)"
    and "resolveComponents env (bNoCache opts) components [] h1 = (Inr packs, h2)"
    and "FilterTargets (pTargets project) (bArchitecture opts) (bPlatform opts) (bTarget opts)
           \<noteq> []"
  shows "fst (BuildCmd env opts args h) = None
         \<and> (\<forall>fc fp fb.
               BuildCmd (env\<lparr>project_Configure := fc, project_Prepare := fp,
                               project_Build := fb\<rparr>) opts args h
                 = BuildCmd env opts args h)"
  using BuildCmd_after_resolution [OF assms(1,2)] assms(3)
  by (simp add: BuildCmd_stages_irrelevant)

theorem BuildCmd_stage_results_unused_witness:
  "buildLoad (envWith [compLwip]) build0 [''/work''] [] =
     (Inr (''/work'', project0, [compLwip]), hLoad)
   \<and> resolveComponents (envWith [compLwip]) (bNoCache build0) [compLwip] [] hLoad =
       (Inr [''pkg-lwip''], hLoad @ [EvCatalog ''umbrella'' (sampleQuery compLwip)])
   \<and> FilterTargets (pTargets project0) (bArchitecture build0) (bPlatform build0)
        (bTarget build0) \<noteq> []
   \<and> project_Configure (envWith [compLwip]) [] project0 targetA [] = Some ''configure failed''
   \<and> project_Prepare (envWith [compLwip]) [] project0 targetA [] = Some ''prepare failed''
   \<and> project_Build (envWith [compLwip]) [] project0 targetA [] = Some ''build failed''
   \<and> fst (BuildCmd (envWith [compLwip]) build0 [''/work''] []) = None
   \<and> BuildCmd ((envWith [compLwip])\<lparr>project_Configure := (\<lambda>hh p t m. None),
         project_Prepare := (\<lambda>hh p t m. None), project_Build := (\<lambda>hh p t b. None)\<rparr>)
        build0 [''/work''] []
       = BuildCmd (envWith [compLwip]) build0 [''/work''] []"
proof -
  have s: "FilterTargets (pTargets project0) (bArchitecture build0) (bPlatform build0)
             (bTarget build0) \<noteq> []"
    by (simp add: sample_selected)
  note t = BuildCmd_stage_results_unused [OF envWith_buildLoad envWith_resolve_lwip s]
  from t have a: "fst (BuildCmd (envWith [compLwip]) build0 [''/work''] []) = None"
    by blast
  from t have b: "BuildCmd ((envWith [compLwip])\<lparr>project_Configure := (\<lambda>hh p t m. None),
         project_Prepare := (\<lambda>hh p t m. None), project_Build := (\<lambda>hh p t b. None)\<rparr>)
        build0 [''/work''] []
       = BuildCmd (envWith [compLwip]) build0 [''/work''] []"
    by blast
  have c: "project_Configure (envWith [compLwip]) [] project0 targetA [] = Some ''configure failed''"
          "project_Prepare (envWith [compLwip]) [] project0 targetA [] = Some ''prepare failed''"
          "project_Build (envWith [compLwip]) [] project0 targetA [] = Some ''build failed''"
    by (simp_all add: envWith_def env0_def)
  show ?thesis
    by (intro conjI envWith_buildLoad envWith_resolve_lwip s c a b)
qed

section \<open>Properties of the package command\<close>

lemma pkgTargets_no_match:
  "list_all (\<lambda>targ. \<not> pkgCase opts targ) ts \<Longrightarrow> pkgTargets env opts ts h = (None, h)"
  by (induction ts) simp_all

lemma PkgCmd_no_match:
  assumes "argsWorkdir env args h = (Inr workdir, h1)"
    and "app_NewProjectFromOptions env h1 workdir [] = Inr project"
    and "list_all (\<lambda>targ. \<not> pkgCase opts targ) (pTargets project)"
  shows "PkgCmd env opts args h = (None, h1 @ [EvNewProject workdir []])"
  using assms by (simp add: PkgCmd_def pkgTargets_no_match)

lemma BuildCmd_no_targets:
  assumes "buildLoad env opts args h = (Inr (workdir, project, components), h1)"
    and "resolveComponents env (bNoCache opts) components [] h1 = (Inr packs, h2)"
    and "FilterTargets (pTargets project) (bArchitecture opts) (bPlatform opts) (bTarget opts)
           = []"
  shows "fst (BuildCmd env opts args h) = Some ''no targets selected to build''"
  using BuildCmd_after_resolution [OF assms(1,2)] assms(3) by simp

text \<open>
  Claim C4. \<^verbatim>\<open>BuildCmd\<close> ends with \<open>no targets selected to build\<close> when the filters
  match no target (\<open>BuildCmd_no_targets\<close>). \<^verbatim>\<open>PkgCmd\<close> has no such check: with the
  name filter \<open>nosuch\<close>, which matches neither target of the sample project, it loads
  the project, packages nothing and returns \<^verbatim>\<open>nil\<close>.
\<close>

theorem PkgCmd_no_match_returns_nil:
  "list_all (\<lambda>targ. \<not> pkgCase (pkg0\<lparr>kTarget := ''nosuch''\<rparr>) targ) (pTargets project0)
   \<and> PkgCmd env0 (pkg0\<lparr>kTarget := ''nosuch''\<rparr>) [''/work''] []
       = (None, [EvNewProject ''/work'' []])
   \<and> fst (BuildCmd (envWith [compLwip]) (build0\<lparr>bTarget := ''nosuch''\<rparr>) [''/work''] [])
       = Some ''no targets selected to build''"
proof -
  have a: "list_all (\<lambda>targ. \<not> pkgCase (pkg0\<lparr>kTarget := ''nosuch''\<rparr>) targ) (pTargets project0)"
    by (simp add: pkgCase_def pkg0_def project0_def targetA_def targetB_def)
  have w: "argsWorkdir env0 [''/work''] [] = (Inr ''/work'', [])" by simp
  have p: "app_NewProjectFromOptions env0 [] ''/work'' [] = Inr project0"
    by (simp add: env0_def)
  have b: "PkgCmd env0 (pkg0\<lparr>kTarget := ''nosuch''\<rparr>) [''/work''] []
             = (None, [EvNewProject ''/work'' []])"
    using PkgCmd_no_match [OF w p a] by simp
  have l: "buildLoad (envWith [compLwip]) (build0\<lparr>bTarget := ''nosuch''\<rparr>) [''/work''] []
             = (Inr (''/work'', project0, [compLwip]), hLoad)"
    by (simp add: buildLoad_def envWith_def env0_def build0_def hLoad_def)
  have r: "resolveComponents (envWith [compLwip]) (bNoCache (build0\<lparr>bTarget := ''nosuch''\<rparr>))
             [compLwip] [] hLoad
             = (Inr [''pkg-lwip''], hLoad @ [EvCatalog ''umbrella'' (sampleQuery compLwip)])"
    using envWith_resolve_lwip [of "[compLwip]"] by simp
  have s: "FilterTargets (pTargets project0) (bArchitecture (build0\<lparr>bTarget := ''nosuch''\<rparr>))
             (bPlatform (build0\<lparr>bTarget := ''nosuch''\<rparr>)) (bTarget (build0\<lparr>bTarget := ''nosuch''\<rparr>))
             = []"
    by (simp add: FilterTargets_def conditions_def project0_def build0_def targetA_def
          targetB_def)
  show ?thesis
    by (intro conjI a b BuildCmd_no_targets [OF l r s])
qed

lemma pkgFormat_override:
  "kFormat opts \<noteq> ''auto'' \<Longrightarrow> pkgFormat opts targ = kFormat opts"
  by (simp add: pkgFormat_def)

lemma pkgFormat_declared:
  "kFormat opts = ''auto'' \<Longrightarrow> tFormat targ \<noteq> [] \<Longrightarrow> pkgFormat opts targ = tFormat targ"
  by (simp add: pkgFormat_def)

lemma pkgFormat_examples:
  "pkgFormat (pkg0\<lparr>kFormat := ''auto''\<rparr>) (targ\<lparr>tFormat := ''raw''\<rparr>) = ''raw''"
  "pkgFormat (pkg0\<lparr>kFormat := ''qcow2''\<rparr>) targ = ''qcow2''"
  by (simp_all add: pkgFormat_def)

lemma pkgRoute_format:
  "format \<noteq> ''auto'' \<Longrightarrow>
     pkgRoute env format h =
       (pm_From env h (packmanager_G env) format, h @ [EvFrom (packmanager_G env) format])"
  by (simp add: pkgRoute_def)

lemma pkgRoute_auto:
  "pkgRoute env ''auto'' h = (Inr (packmanager_G env), h)"
  by (simp add: pkgRoute_def)

lemma pkgRoute_undeclared:
  assumes "kFormat opts = ''auto''" and "tFormat targ = []"
  shows "pkgRoute env (pkgFormat opts targ) h =
           (pm_From env h (packmanager_G env) [], h @ [EvFrom (packmanager_G env) []])"
  using assms by (simp add: pkgRoute_def pkgFormat_def)

text \<open>
  Claim C5. The first two levels of the precedence hold (\<open>pkgFormat_override\<close>,
  \<open>pkgFormat_declared\<close>, \<open>pkgFormat_examples\<close>). The third does not: with the override
  \<open>auto\<close> and a target that declares no format, the format stays the empty string,
  which differs from \<open>auto\<close>, so \<^verbatim>\<open>From\<close> is called with the empty string. In the sample
  world, whose registry knows \<open>raw\<close> and \<open>qcow2\<close> only, the command fails on the first
  target instead of packaging it with the default package manager.
\<close>

theorem PkgCmd_undeclared_format_calls_From:
  "kFormat pkg0 = ''auto'' \<and> tFormat targetA = []
   \<and> pkgFormat pkg0 targetA = []
   \<and> pkgRoute env0 (pkgFormat pkg0 targetA) [EvNewProject ''/work'' []]
       = (Inl ''unknown package manager: '',
          [EvNewProject ''/work'' [], EvFrom ''umbrella'' []])
   \<and> PkgCmd env0 pkg0 [''/work''] []
       = (Some ''unknown package manager: '',
          [EvNewProject ''/work'' [], EvFrom ''umbrella'' []])"
  by (simp add: PkgCmd_def pkgTarget_def pkgRoute_def pkgFormat_def pkgCase_def pkg0_def
        env0_def project0_def targetA_def)

section \<open>Properties of the set command\<close>

lemma confOptions_accepts:
  "list_all (\<lambda>arg. \<not> malformed arg) args \<Longrightarrow> confOptions args confOpts = Inr (confOpts @ args)"
  by (induction args arbitrary: confOpts) simp_all

text \<open>
  Claim C9. When \<^verbatim>\<open>SetCmd\<close> is given at least one argument, all of them of the form
  \<open>key=value\<close>, and the working directory (the option, or \<^verbatim>\<open>os.Getwd()\<close> when the option is
  empty) holds no \<open>.config\<close>, it fails with \<open>dotconfig file does not exist:\<close> followed by
  the path \<open>workdir/.config\<close>; the check of that path is its last call, so the project is
  neither loaded nor set.
\<close>

theorem SetCmd_missing_dotconfig:
  assumes "args \<noteq> []"
    and "list_all (\<lambda>arg. \<not> malformed arg) args"
    and "(sWorkdir opts \<noteq> [] \<and> workdir = sWorkdir opts \<and> h1 = h)
         \<or> (sWorkdir opts = [] \<and> os_Getwd env h = Inr workdir \<and> h1 = h @ [EvGetwd])"
    and "os_Stat env h1 (workdir @ ''/.config'') = StatNotExist"
  shows "SetCmd env opts args h =
           (Some (''dotconfig file does not exist: '' @ workdir @ ''/.config''),
            h1 @ [EvStat (workdir @ ''/.config'')])"
  using assms by (auto simp: SetCmd_def confOptions_accepts Let_def)

theorem SetCmd_missing_dotconfig_witness:
  "[''CONFIG_LIBUKDEBUG=y'', ''CONFIG_UK_NAME=hello''] \<noteq> []
   \<and> list_all (\<lambda>arg. \<not> malformed arg) [''CONFIG_LIBUKDEBUG=y'', ''CONFIG_UK_NAME=hello'']
   \<and> sWorkdir \<lparr> sWorkdir = ''/work'' \<rparr> \<noteq> []
   \<and> os_Stat (env0\<lparr>os_Stat := (\<lambda>h path. StatNotExist)\<rparr>) [] (''/work'' @ ''/.config'')
       = StatNotExist
   \<and> SetCmd (env0\<lparr>os_Stat := (\<lambda>h path. StatNotExist)\<rparr>) \<lparr> sWorkdir = ''/work'' \<rparr>
        [''CONFIG_LIBUKDEBUG=y'', ''CONFIG_UK_NAME=hello''] []
       = (Some ''dotconfig file does not exist: /work/.config'', [EvStat ''/work/.config''])
   \<and> sWorkdir \<lparr> sWorkdir = [] \<rparr> = []
   \<and> os_Getwd (env0\<lparr>os_Stat := (\<lambda>h path. StatNotExist)\<rparr>) [] = Inr ''/work''
   \<and> SetCmd (env0\<lparr>os_Stat := (\<lambda>h path. StatNotExist)\<rparr>) \<lparr> sWorkdir = [] \<rparr>
        [''CONFIG_LIBUKDEBUG=y''] []
       = (Some ''dotconfig file does not exist: /work/.config'',
          [EvGetwd, EvStat ''/work/.config''])"
  using SetCmd_missing_dotconfig [of "[''CONFIG_LIBUKDEBUG=y'', ''CONFIG_UK_NAME=hello'']"
          "\<lparr> sWorkdir = ''/work'' \<rparr>" "''/work''" "[]" "[]"
          "env0\<lparr>os_Stat := (\<lambda>h path. StatNotExist)\<rparr>"]
        SetCmd_missing_dotconfig [of "[''CONFIG_LIBUKDEBUG=y'']"
          "\<lparr> sWorkdir = [] \<rparr>" "''/work''" "[EvGetwd]" "[]"
          "env0\<lparr>os_Stat := (\<lambda>h path. StatNotExist)\<rparr>"]
  by (simp add: malformed_def env0_def)

section \<open>Properties of the pull command\<close>

lemma pullSetup_args_nonempty:
  assumes "pullSetup env opts args h = (Inr (workdir, args', pm), h1)"
  shows "args' \<noteq> []"
  using assms
  by (auto simp: pullSetup_def Let_def split: if_splits sum.splits prod.splits)

lemma pullPacks_no_catalog:
  "filter isCatalogEvent (pullPacks env popts packs h) = filter isCatalogEvent h"
  by (simp add: pullPacks_events)

lemma runQueries_catalog_events:
  "filter isCatalogEvent (runQueries env opts pm workdir queries h) =
     filter isCatalogEvent h @ map (\<lambda>c. EvCatalog (pq_pm c) (pq_query c)) queries"
  by (induction queries arbitrary: h)
     (simp_all add: Let_def pullPacks_no_catalog split: sum.splits)

lemma PullCmd_list_mode:
  assumes "pullSetup env opts args h = (Inr (workdir, args', pm), h1)"
    and "os_Stat env h1 (hd args') \<noteq> StatOk True"
  shows "PullCmd env opts args h =
           (None, runQueries env opts pm workdir
                    (fst (probeArgs env opts pm args' [] (h1 @ [EvStat (hd args')])))
                    (snd (probeArgs env opts pm args' [] (h1 @ [EvStat (hd args')]))))"
  using assms pullSetup_args_nonempty [OF assms(1)]
  by (cases args') (auto simp: PullCmd_def Let_def split: prod.splits)

lemma PullCmd_directory_mode:
  assumes "pullSetup env opts args h = (Inr (workdir, args', pm), h1)"
    and "os_Stat env h1 (hd args') = StatOk True"
  shows "PullCmd env opts args h =
           (case pullDirectory env opts pm (hd args') (h1 @ [EvStat (hd args')]) of
              (Inl err, h3) \<Rightarrow> (Some err, h3)
            | (Inr queries, h3) \<Rightarrow> (None, runQueries env opts pm (hd args') queries h3))"
  using assms pullSetup_args_nonempty [OF assms(1)]
  by (cases args') (auto simp: PullCmd_def Let_def split: prod.splits sum.splits)

text \<open>
  Claim C6. Once the setup of \<^verbatim>\<open>PullCmd\<close> has succeeded: in list mode the command returns
  \<^verbatim>\<open>nil\<close> whatever the compatibility probes and the catalog queries answer, and in
  directory mode it returns \<^verbatim>\<open>nil\<close> as soon as the queries have been collected. An
  argument that no package manager claims (the probe fails or answers \<open>false\<close>)
  contributes no query and the loop goes on with the next argument. A query whose
  catalog call fails, or returns no package, is followed by a warning and the loop goes
  on with the next query; every collected query is run, in order.
\<close>

theorem PullCmd_fault_tolerant:
  assumes "pullSetup env opts args h = (Inr (workdir, args', pm), h1)"
  shows "(os_Stat env h1 (hd args') \<noteq> StatOk True \<longrightarrow> fst (PullCmd env opts args h) = None)
    \<and> (\<forall>queries h3.
          os_Stat env h1 (hd args') = StatOk True
          \<and> pullDirectory env opts pm (hd args') (h1 @ [EvStat (hd args')]) = (Inr queries, h3)
          \<longrightarrow> PullCmd env opts args h = (None, runQueries env opts pm (hd args') queries h3))
    \<and> (\<forall>arg rest queries hh.
          (\<forall>pm'. pm_IsCompatible env hh pm arg \<noteq> Inr (pm', True))
          \<longrightarrow> probeArgs env opts pm (arg # rest) queries hh =
                probeArgs env opts pm rest queries (hh @ [EvIsCompatible pm arg]))
    \<and> (\<forall>c rest wd hh err.
          pm_Catalog env hh (pq_pm c) (pq_query c) = Inl err
          \<longrightarrow> runQueries env opts pm wd (c # rest) hh =
                runQueries env opts pm wd rest
                  (hh @ [EvCatalog (pq_pm c) (pq_query c),
                         EvWarn [(''format'', pm_Format env pm), (''name'', qName (pq_query c))]
                           err]))
    \<and> (\<forall>c rest wd hh.
          pm_Catalog env hh (pq_pm c) (pq_query c) = Inr []
          \<longrightarrow> runQueries env opts pm wd (c # rest) hh =
                runQueries env opts pm wd rest
                  (hh @ [EvCatalog (pq_pm c) (pq_query c),
                         EvWarn [] (''could not find '' @ query_String env (pq_query c))]))
    \<and> (\<forall>queries wd hh.
          filter isCatalogEvent (runQueries env opts pm wd queries hh) =
            filter isCatalogEvent hh @ map (\<lambda>c. EvCatalog (pq_pm c) (pq_query c)) queries)"
proof (intro conjI allI impI)
  assume "os_Stat env h1 (hd args') \<noteq> StatOk True"
  from PullCmd_list_mode [OF assms this]
  show "fst (PullCmd env opts args h) = None" by simp
next
  fix queries h3
  assume "os_Stat env h1 (hd args') = StatOk True
          \<and> pullDirectory env opts pm (hd args') (h1 @ [EvStat (hd args')]) = (Inr queries, h3)"
  then show "PullCmd env opts args h = (None, runQueries env opts pm (hd args') queries h3)"
    using PullCmd_directory_mode [OF assms] by simp
next
  fix arg rest queries hh
  assume "\<forall>pm'. pm_IsCompatible env hh pm arg \<noteq> Inr (pm', True)"
  then show "probeArgs env opts pm (arg # rest) queries hh =
               probeArgs env opts pm rest queries (hh @ [EvIsCompatible pm arg])"
    by (auto split: sum.splits)
next
  fix c :: pmQuery and rest wd hh err
  assume "pm_Catalog env hh (pq_pm c) (pq_query c) = Inl err"
  then show "runQueries env opts pm wd (c # rest) hh =
               runQueries env opts pm wd rest
                 (hh @ [EvCatalog (pq_pm c) (pq_query c),
                        EvWarn [(''format'', pm_Format env pm), (''name'', qName (pq_query c))]
                          err])"
    by (simp add: Let_def)
next
  fix c :: pmQuery and rest wd hh
  assume "pm_Catalog env hh (pq_pm c) (pq_query c) = Inr []"
  then show "runQueries env opts pm wd (c # rest) hh =
               runQueries env opts pm wd rest
                 (hh @ [EvCatalog (pq_pm c) (pq_query c),
                        EvWarn [] (''could not find '' @ query_String env (pq_query c))])"
    by (simp add: Let_def)
next
  fix queries wd hh
  show "filter isCatalogEvent (runQueries env opts pm wd queries hh) =
          filter isCatalogEvent hh @ map (\<lambda>c. EvCatalog (pq_pm c) (pq_query c)) queries"
    by (rule runQueries_catalog_events)
qed


lemma envPull_setup:
  "pullSetup envPull pull0 (a # as) [] = (Inr (''/work'', a # as, ''umbrella''), [])"
  by (simp add: pullSetup_def pull0_def envPull_def env0_def)

lemma PullCmd_list_example:
  "PullCmd envPull pull0 [''bogus'', ''broken'', ''down'', ''miss'', ''lwip''] [] =
     (None,
      [EvStat ''bogus'',
       EvIsCompatible ''umbrella'' ''bogus'',
       EvIsCompatible ''umbrella'' ''broken'',
       EvIsCompatible ''umbrella'' ''down'',
       EvIsCompatible ''umbrella'' ''miss'',
       EvIsCompatible ''umbrella'' ''lwip'',
       EvCatalog ''manifest'' (pq_query (sampleNameQuery ''down'')),
       EvWarn [(''format'', ''umbrella''), (''name'', ''down'')] ''catalog unreachable'',
       EvCatalog ''manifest'' (pq_query (sampleNameQuery ''miss'')),
       EvWarn [] ''could not find miss'',
       EvCatalog ''manifest'' (pq_query (sampleNameQuery ''lwip'')),
       EvPull ''pkg-lwip''
         [WithPullWorkdir ''/work'', WithPullChecksum True, WithPullCache False]])"
  by (simp add: PullCmd_def pullSetup_def pull0_def envPull_def env0_def catalog1_def
        sampleNameQuery_def Let_def)

theorem PullCmd_fault_tolerant_witness:
  "pullSetup envPull pull0 [''bogus'', ''broken'', ''down'', ''miss'', ''lwip''] [] =
     (Inr (''/work'', [''bogus'', ''broken'', ''down'', ''miss'', ''lwip''], ''umbrella''), [])
   \<and> os_Stat envPull [] (hd [''bogus'', ''broken'', ''down'', ''miss'', ''lwip'']) = StatOk False
   \<and> fst (PullCmd envPull pull0 [''bogus'', ''broken'', ''down'', ''miss'', ''lwip''] []) = None
   \<and> pm_IsCompatible envPull [] ''umbrella'' ''bogus'' = Inr (''umbrella'', False)
   \<and> probeArgs envPull pull0 ''umbrella'' (''bogus'' # [''lwip'']) [] [] =
       probeArgs envPull pull0 ''umbrella'' [''lwip''] [] ([] @ [EvIsCompatible ''umbrella'' ''bogus''])
   \<and> pm_IsCompatible envPull [] ''umbrella'' ''broken'' = Inl ''probe failed''
   \<and> probeArgs envPull pull0 ''umbrella'' (''broken'' # [''lwip'']) [] [] =
       probeArgs envPull pull0 ''umbrella'' [''lwip''] [] ([] @ [EvIsCompatible ''umbrella'' ''broken''])
   \<and> pm_Catalog envPull [] ''manifest'' (pq_query (sampleNameQuery ''down''))
       = Inl ''catalog unreachable''
   \<and> runQueries envPull pull0 ''umbrella'' ''/work''
        (sampleNameQuery ''down'' # [sampleNameQuery ''lwip'']) [] =
       runQueries envPull pull0 ''umbrella'' ''/work'' [sampleNameQuery ''lwip'']
         [EvCatalog ''manifest'' (pq_query (sampleNameQuery ''down'')),
          EvWarn [(''format'', ''umbrella''), (''name'', ''down'')] ''catalog unreachable'']
   \<and> pm_Catalog envPull [] ''manifest'' (pq_query (sampleNameQuery ''miss'')) = Inr []
   \<and> runQueries envPull pull0 ''umbrella'' ''/work''
        (sampleNameQuery ''miss'' # [sampleNameQuery ''lwip'']) [] =
       runQueries envPull pull0 ''umbrella'' ''/work'' [sampleNameQuery ''lwip'']
         [EvCatalog ''manifest'' (pq_query (sampleNameQuery ''miss'')),
          EvWarn [] ''could not find miss'']"
proof -
  let ?args = "[''bogus'', ''broken'', ''down'', ''miss'', ''lwip'']"
  note t = PullCmd_fault_tolerant [OF envPull_setup [of "''bogus''" "tl ?args"]]
  have s: "os_Stat envPull [] (hd ?args) = StatOk False"
    by (simp add: envPull_def env0_def)
  have i1: "pm_IsCompatible envPull [] ''umbrella'' ''bogus'' = Inr (''umbrella'', False)"
    and i2: "pm_IsCompatible envPull [] ''umbrella'' ''broken'' = Inl ''probe failed''"
    by (simp_all add: envPull_def)
  have c1: "pm_Catalog envPull [] ''manifest'' (pq_query (sampleNameQuery ''down''))
              = Inl ''catalog unreachable''"
    and c2: "pm_Catalog envPull [] ''manifest'' (pq_query (sampleNameQuery ''miss'')) = Inr []"
    by (simp_all add: envPull_def catalog1_def sampleNameQuery_def)
  have f: "pm_Format envPull ''umbrella'' = ''umbrella''"
          "query_String envPull (pq_query (sampleNameQuery ''miss'')) = ''miss''"
          "pq_pm (sampleNameQuery x) = ''manifest''"
          "qName (pq_query (sampleNameQuery x)) = x" for x
    by (simp_all add: envPull_def env0_def sampleNameQuery_def)
  note t1 = t [THEN conjunct1]
  note t3 = t [THEN conjunct2, THEN conjunct2, THEN conjunct1, rule_format]
  note t4 = t [THEN conjunct2, THEN conjunct2, THEN conjunct2, THEN conjunct1, rule_format]
  note t5 = t [THEN conjunct2, THEN conjunct2, THEN conjunct2, THEN conjunct2, THEN conjunct1,
               rule_format]
  from t1 s have r0: "fst (PullCmd envPull pull0 ?args []) = None"
    by simp
  have r1: "probeArgs envPull pull0 ''umbrella'' (''bogus'' # [''lwip'']) [] [] =
       probeArgs envPull pull0 ''umbrella'' [''lwip''] [] ([] @ [EvIsCompatible ''umbrella'' ''bogus''])"
    by (rule t3) (simp add: i1)
  have r2: "probeArgs envPull pull0 ''umbrella'' (''broken'' # [''lwip'']) [] [] =
       probeArgs envPull pull0 ''umbrella'' [''lwip''] [] ([] @ [EvIsCompatible ''umbrella'' ''broken''])"
    by (rule t3) (simp add: i2)
  have "runQueries envPull pull0 ''umbrella'' ''/work''
        (sampleNameQuery ''down'' # [sampleNameQuery ''lwip'']) [] =
       runQueries envPull pull0 ''umbrella'' ''/work'' [sampleNameQuery ''lwip'']
         ([] @ [EvCatalog (pq_pm (sampleNameQuery ''down'')) (pq_query (sampleNameQuery ''down'')),
          EvWarn [(''format'', pm_Format envPull ''umbrella''),
                  (''name'', qName (pq_query (sampleNameQuery ''down'')))]
            ''catalog unreachable''])"
    by (rule t4) (simp only: f c1)
  then have r3: "runQueries envPull pull0 ''umbrella'' ''/work''
        (sampleNameQuery ''down'' # [sampleNameQuery ''lwip'']) [] =
       runQueries envPull pull0 ''umbrella'' ''/work'' [sampleNameQuery ''lwip'']
         [EvCatalog ''manifest'' (pq_query (sampleNameQuery ''down'')),
          EvWarn [(''format'', ''umbrella''), (''name'', ''down'')] ''catalog unreachable'']"
    by (simp only: f append_Nil)
  have "runQueries envPull pull0 ''umbrella'' ''/work''
        (sampleNameQuery ''miss'' # [sampleNameQuery ''lwip'']) [] =
       runQueries envPull pull0 ''umbrella'' ''/work'' [sampleNameQuery ''lwip'']
         ([] @ [EvCatalog (pq_pm (sampleNameQuery ''miss'')) (pq_query (sampleNameQuery ''miss'')),
          EvWarn [] (''could not find '' @ query_String envPull (pq_query (sampleNameQuery ''miss'')))])"
    by (rule t5) (simp only: f c2)
  then have r4: "runQueries envPull pull0 ''umbrella'' ''/work''
        (sampleNameQuery ''miss'' # [sampleNameQuery ''lwip'']) [] =
       runQueries envPull pull0 ''umbrella'' ''/work'' [sampleNameQuery ''lwip'']
         [EvCatalog ''manifest'' (pq_query (sampleNameQuery ''miss'')),
          EvWarn [] ''could not find miss'']"
    by (simp only: f append_Nil append.simps)
  show ?thesis
    by (intro conjI envPull_setup s r0 i1 r1 i2 r2 c1 r3 c2 r4)
qed

text \<open>
  Claim C8. In directory mode, when the components of the loaded project cannot be
  enumerated and the catalog returns no package for the template (queried as an
  application, by name and version), \<^verbatim>\<open>PullCmd\<close> fails with \<open>could not find:\<close> followed
  by the template's type/name/version string. The template query is the last call and
  the only catalog query: no component is queried.
\<close>

theorem PullCmd_template_not_found:
  assumes "pullSetup env opts args h = (Inr (workdir, args', pm), h1)"
    and "os_Stat env h1 (hd args') = StatOk True"
    and "app_NewProjectFromOptions env (h1 @ [EvStat (hd args')]) (hd args') [] = Inr project"
    and "project_Components env (h1 @ [EvStat (hd args'), EvNewProject (hd args') []]) project
           = Inl err"
    and "query = \<lparr> qName = cName (pTemplate project), qTypes = [ComponentTypeApp],
                    qVersion = cVersion (pTemplate project), qSource = [],
                    qNoCache = (\<not> uForceCache opts) \<rparr>"
    and "pm_Catalog env (h1 @ [EvStat (hd args'), EvNewProject (hd args') [],
                               EvComponents project]) pm query = Inr []"
  shows "PullCmd env opts args h =
           (Some (''could not find: '' @ unikraft_TypeNameVersion env (pTemplate project)),
            h1 @ [EvStat (hd args'), EvNewProject (hd args') [], EvComponents project,
                  EvCatalog pm query])"
proof -
  from assms(4-6)
  have "pullTemplate env opts pm (hd args') project
          (h1 @ [EvStat (hd args'), EvNewProject (hd args') []]) =
          (Some (''could not find: '' @ unikraft_TypeNameVersion env (pTemplate project)),
           h1 @ [EvStat (hd args'), EvNewProject (hd args') [], EvComponents project,
                 EvCatalog pm query])"
    by (simp add: pullTemplate_def Let_def)
  with assms(3)
  have "pullDirectory env opts pm (hd args') (h1 @ [EvStat (hd args')]) =
          (Inl (''could not find: '' @ unikraft_TypeNameVersion env (pTemplate project)),
           h1 @ [EvStat (hd args'), EvNewProject (hd args') [], EvComponents project,
                 EvCatalog pm query])"
    by (simp add: pullDirectory_def)
  with PullCmd_directory_mode [OF assms(1,2)] show ?thesis by simp
qed

theorem PullCmd_template_not_found_witness:
  "pullSetup envTemplate pull0 [] [] = (Inr (''/work'', [''/work''], ''umbrella''), [])
   \<and> os_Stat envTemplate [] (hd [''/work'']) = StatOk True
   \<and> app_NewProjectFromOptions envTemplate ([] @ [EvStat (hd [''/work''])]) (hd [''/work'']) []
       = Inr project0
   \<and> project_Components envTemplate
        ([] @ [EvStat (hd [''/work'']), EvNewProject (hd [''/work'']) []]) project0
       = Inl ''template not fetched''
   \<and> pm_Catalog envTemplate
        ([] @ [EvStat (hd [''/work'']), EvNewProject (hd [''/work'']) [], EvComponents project0])
        ''umbrella''
        \<lparr> qName = ''app-base'', qTypes = [ComponentTypeApp], qVersion = ''1.0'', qSource = [],
          qNoCache = True \<rparr> = Inr []
   \<and> PullCmd envTemplate pull0 [] [] =
       (Some ''could not find: app-base:1.0'',
        [EvStat ''/work'', EvNewProject ''/work'' [], EvComponents project0,
         EvCatalog ''umbrella''
           \<lparr> qName = ''app-base'', qTypes = [ComponentTypeApp], qVersion = ''1.0'',
             qSource = [], qNoCache = True \<rparr>])"
proof -
  have a: "pullSetup envTemplate pull0 [] [] = (Inr (''/work'', [''/work''], ''umbrella''), [])"
    by (simp add: pullSetup_def pull0_def envTemplate_def env0_def)
  have b: "os_Stat envTemplate [] (hd [''/work'']) = StatOk True"
    by (simp add: envTemplate_def)
  have c: "app_NewProjectFromOptions envTemplate ([] @ [EvStat (hd [''/work''])])
             (hd [''/work'']) [] = Inr project0"
    by (simp add: envTemplate_def env0_def)
  have d: "project_Components envTemplate
             ([] @ [EvStat (hd [''/work'']), EvNewProject (hd [''/work'']) []]) project0
             = Inl ''template not fetched''"
    by (simp add: envTemplate_def)
  have q: "\<lparr> qName = ''app-base'', qTypes = [ComponentTypeApp], qVersion = ''1.0'', qSource = [],
             qNoCache = True \<rparr> =
           \<lparr> qName = cName (pTemplate project0), qTypes = [ComponentTypeApp],
             qVersion = cVersion (pTemplate project0), qSource = [],
             qNoCache = (\<not> uForceCache pull0) \<rparr>"
    by (simp add: project0_def appTemplate_def pull0_def)
  have e: "pm_Catalog envTemplate
        ([] @ [EvStat (hd [''/work'']), EvNewProject (hd [''/work'']) [], EvComponents project0])
        ''umbrella''
        \<lparr> qName = ''app-base'', qTypes = [ComponentTypeApp], qVersion = ''1.0'', qSource = [],
          qNoCache = True \<rparr> = Inr []"
    by (simp add: envTemplate_def)
  have f: "PullCmd envTemplate pull0 [] [] =
       (Some ''could not find: app-base:1.0'',
        [EvStat ''/work'', EvNewProject ''/work'' [], EvComponents project0,
         EvCatalog ''umbrella''
           \<lparr> qName = ''app-base'', qTypes = [ComponentTypeApp], qVersion = ''1.0'',
             qSource = [], qNoCache = True \<rparr>])"
    using PullCmd_template_not_found [OF a b c d q e]
    by (simp add: envTemplate_def env0_def project0_def appTemplate_def)
  show ?thesis
    by (intro conjI a b c d e f)
qed

lemma PullCmd_directory_example:
  "PullCmd envDir pull0 [] [] =
     (None,
      [EvStat ''/work'',
       EvNewProject ''/work'' [],
       EvComponents project0,
       EvPlaceComponent ''/work'' ComponentTypeApp ''app-base'',
       EvNewProject ''/work/.unikraft/apps/app-base'' [],
       EvMergeTemplate project0 project0,
       EvComponents project0,
       EvCatalog ''umbrella'' (sampleQuery compLwip\<lparr>qNoCache := True\<rparr>),
       EvPull ''pkg-lwip''
         [WithPullWorkdir ''/work'', WithPullChecksum True, WithPullCache False],
       EvCatalog ''umbrella'' (sampleQuery compNewlib\<lparr>qNoCache := True\<rparr>),
       EvPull ''pkg-newlib''
         [WithPullWorkdir ''/work'', WithPullChecksum True, WithPullCache False]])"
  by (simp add: PullCmd_def pullSetup_def pullDirectory_def pullTemplate_def
        componentQueries_def pull0_def envDir_def env0_def sampleQuery_def compLwip_def
        compNewlib_def project0_def appTemplate_def Let_def)

end
